theory Spec2Isabelle
  imports Main
begin

section \<open>Data model\<close>

text \<open>
  The verifier of \<^verbatim>\<open>verifier/dbverifier.py\<close> checks every exists snapshot
  (\<^verbatim>\<open>InstanceExists\<close>) against launch records (\<^verbatim>\<open>InstanceUsage\<close>),
  delete records (\<^verbatim>\<open>InstanceDeletes\<close>) and reconcile records
  (\<^verbatim>\<open>InstanceReconcile\<close>).

  Modelled from the spec: the tables of \<^verbatim>\<open>stacktach.models\<close> are not part of the
  sources at hand. Timestamps are stored as decimals of seconds with fractional-second
  precision; the finders work with a granularity of one microsecond, so a timestamp is an
  integer count of microseconds since the epoch. A nullable column is an \<open>option\<close>.
\<close>

type_synonym decimal = int

datatype status = PENDING | VERIFYING | VERIFIED | RECONCILED | FAILED

record InstanceUsage =
  u_instance :: string
  u_launched_at :: "decimal option"
  u_instance_type_id :: "string option"
  u_tenant :: "string option"
  u_rax_options :: "string option"
  u_os_architecture :: "string option"
  u_os_version :: "string option"
  u_os_distro :: "string option"

record InstanceDeletes =
  d_instance :: string
  d_launched_at :: "decimal option"
  d_deleted_at :: "decimal option"

record InstanceReconcile =
  r_instance :: string
  r_launched_at :: "decimal option"
  r_deleted_at :: "decimal option"
  r_instance_type_id :: "string option"
  r_tenant :: "string option"
  r_rax_options :: "string option"
  r_os_architecture :: "string option"
  r_os_version :: "string option"
  r_os_distro :: "string option"

text \<open>
  The raw notification of a snapshot, as \<^verbatim>\<open>json.loads(exist.raw.json)\<close> yields it:
  a two-element array of the routing key and the payload dictionary.
\<close>

datatype json = JNull | JBool bool | JNum int | JStr string

record RawData =
  raw_routing_key :: string
  raw_payload :: "string \<rightharpoonup> json"

record InstanceExists =
  e_id :: nat
  e_instance :: string
  e_launched_at :: "decimal option"
  e_deleted_at :: "decimal option"
  e_audit_period_ending :: decimal
  e_instance_type_id :: "string option"
  e_tenant :: "string option"
  e_rax_options :: "string option"
  e_os_architecture :: "string option"
  e_os_version :: "string option"
  e_os_distro :: "string option"
  e_status :: status
  e_fail_reason :: "string option"
  e_usage :: "InstanceUsage option"
  e_delete :: "InstanceDeletes option"
  e_raw :: RawData

text \<open>
  The store: the three tables of corroborating records, in the order a query returns
  their rows, and the persisted snapshots by primary key.
\<close>

record db =
  usages :: "InstanceUsage list"
  deletes :: "InstanceDeletes list"
  reconciles :: "InstanceReconcile list"
  exists_rows :: "nat \<rightharpoonup> InstanceExists"

subsection \<open>Exceptions\<close>

text \<open>
  Values handed to an exception's constructor: a timestamp, a text or \<^verbatim>\<open>None\<close>.
\<close>

datatype pyval = PyNone | PyDecimal decimal | PyStr string

definition dec_val :: "decimal option \<Rightarrow> pyval" where
  "dec_val d = (case d of None \<Rightarrow> PyNone | Some t \<Rightarrow> PyDecimal t)"

definition str_val :: "string option \<Rightarrow> pyval" where
  "str_val s = (case s of None \<Rightarrow> PyNone | Some t \<Rightarrow> PyStr t)"

text \<open>
  Modelled from the spec: the exception classes \<^verbatim>\<open>VerificationException\<close>,
  \<^verbatim>\<open>NotFound\<close>, \<^verbatim>\<open>AmbiguousResults\<close> and \<^verbatim>\<open>FieldMismatch\<close> are
  imported from the \<^verbatim>\<open>verifier\<close> package, which is not part of the sources at hand.
  Each constructor keeps the arguments the verifier passes. By the error taxonomy the
  last three are verification-level conditions, that is subclasses of
  \<^verbatim>\<open>VerificationException\<close>. \<open>OtherException\<close> stands for every other subclass of
  \<^verbatim>\<open>Exception\<close> and carries its class name.
\<close>

datatype exc =
    VerificationException string
  | NotFound string "(string \<times> pyval) list"
  | AmbiguousResults string "(string \<times> pyval) list"
  | FieldMismatch string pyval pyval
  | OtherException string

fun is_VerificationException :: "exc \<Rightarrow> bool" where
  "is_VerificationException (OtherException n) = False"
| "is_VerificationException e = True"

fun is_NotFound :: "exc \<Rightarrow> bool" where
  "is_NotFound (NotFound t q) = True"
| "is_NotFound e = False"

fun is_AmbiguousResults :: "exc \<Rightarrow> bool" where
  "is_AmbiguousResults (AmbiguousResults t q) = True"
| "is_AmbiguousResults e = False"

fun class_name :: "exc \<Rightarrow> string" where
  "class_name (VerificationException r) = ''VerificationException''"
| "class_name (NotFound t q) = ''NotFound''"
| "class_name (AmbiguousResults t q) = ''AmbiguousResults''"
| "class_name (FieldMismatch f x y) = ''FieldMismatch''"
| "class_name (OtherException n) = n"

section \<open>Matcher\<close>

text \<open>
  Truth value of a nullable decimal in a condition: \<^verbatim>\<open>None\<close> and the decimal zero
  are false, every other decimal is true.
\<close>

definition truthy :: "decimal option \<Rightarrow> bool" where
  "truthy d = (case d of None \<Rightarrow> False | Some t \<Rightarrow> t \<noteq> 0)"

text \<open>
  \<^verbatim>\<open>int(d)\<close> of a decimal of seconds: the whole seconds, truncated towards zero.
\<close>

definition py_int :: "decimal \<Rightarrow> int" where
  "py_int d = (if 0 \<le> d then d div 1000000 else - ((- d) div 1000000))"

text \<open>
  \<^verbatim>\<open>
  def _verify_date_field(d1, d2, same_second=False):
      if d1 and d2:
          if d1 == d2:
              return True
          elif same_second and int(d1) == int(d2):
              return True
      return False
  \<close>
\<close>

definition verify_date_field :: "decimal option \<Rightarrow> decimal option \<Rightarrow> bool \<Rightarrow> bool" where
  "verify_date_field d1 d2 same_second =
     (case (d1, d2) of
        (Some a, Some b) \<Rightarrow>
          if truthy d1 \<and> truthy d2 then
            (if a = b then True
             else if same_second \<and> py_int a = py_int b then True
             else False)
          else False
      | _ \<Rightarrow> False)"

text \<open>
  \<^verbatim>\<open>_verify_field_mismatch(exists, launch)\<close>: seven comparisons in sequence, each
  raising \<^verbatim>\<open>FieldMismatch(name, exists.field, launch.field)\<close> when it fails.
\<close>

definition verify_field_mismatch :: "InstanceExists \<Rightarrow> InstanceUsage \<Rightarrow> exc + unit" where
  "verify_field_mismatch exist launch =
     (if \<not> verify_date_field (u_launched_at launch) (e_launched_at exist) True then
        Inl (FieldMismatch ''launched_at'' (dec_val (e_launched_at exist))
               (dec_val (u_launched_at launch)))
      else if u_instance_type_id launch \<noteq> e_instance_type_id exist then
        Inl (FieldMismatch ''instance_type_id'' (str_val (e_instance_type_id exist))
               (str_val (u_instance_type_id launch)))
      else if u_tenant launch \<noteq> e_tenant exist then
        Inl (FieldMismatch ''tenant'' (str_val (e_tenant exist)) (str_val (u_tenant launch)))
      else if u_rax_options launch \<noteq> e_rax_options exist then
        Inl (FieldMismatch ''rax_options'' (str_val (e_rax_options exist))
               (str_val (u_rax_options launch)))
      else if u_os_architecture launch \<noteq> e_os_architecture exist then
        Inl (FieldMismatch ''os_architecture'' (str_val (e_os_architecture exist))
               (str_val (u_os_architecture launch)))
      else if u_os_version launch \<noteq> e_os_version exist then
        Inl (FieldMismatch ''os_version'' (str_val (e_os_version exist))
               (str_val (u_os_version launch)))
      else if u_os_distro launch \<noteq> e_os_distro exist then
        Inl (FieldMismatch ''os_distro'' (str_val (e_os_distro exist))
               (str_val (u_os_distro launch)))
      else Inr ())"

section \<open>Finder\<close>

text \<open>
  Modelled from the spec: \<^verbatim>\<open>dt_from_decimal\<close> and \<^verbatim>\<open>dt_to_decimal\<close> of
  \<^verbatim>\<open>stacktach.datetime_to_decimal\<close> are not part of the sources at hand. They convert
  a stored decimal to the datetime of the same instant and back, so on counts of
  microseconds both are the identity. An absent value has no datetime: the window
  computation of a finder then fails on its attribute access, an exception outside the
  verification taxonomy. On every path from \<open>verify\<close> the value is present.
\<close>

definition dt_from_decimal :: "decimal option \<Rightarrow> exc + int" where
  "dt_from_decimal dec =
     (case dec of None \<Rightarrow> Inl (OtherException ''AttributeError'') | Some t \<Rightarrow> Inr t)"

definition dt_to_decimal :: "int \<Rightarrow> decimal" where
  "dt_to_decimal utc = utc"

text \<open>
  \<^verbatim>\<open>start = launched - timedelta(microseconds=launched.microsecond)\<close> and
  \<^verbatim>\<open>end = start + timedelta(microseconds=999999)\<close>.
\<close>

definition window_start :: "int \<Rightarrow> int" where
  "window_start launched = launched - launched mod 1000000"

definition window_end :: "int \<Rightarrow> int" where
  "window_end launched = window_start launched + 999999"

text \<open>
  The lookups \<^verbatim>\<open>__gte\<close> and \<^verbatim>\<open>__lte\<close> of a query on a nullable column: a row
  whose column is null matches neither.
\<close>

definition gte :: "decimal option \<Rightarrow> decimal \<Rightarrow> bool" where
  "gte col v = (case col of None \<Rightarrow> False | Some t \<Rightarrow> v \<le> t)"

definition lte :: "decimal option \<Rightarrow> decimal \<Rightarrow> bool" where
  "lte col v = (case col of None \<Rightarrow> False | Some t \<Rightarrow> t \<le> v)"

definition find_launch :: "db \<Rightarrow> string \<Rightarrow> int \<Rightarrow> InstanceUsage list" where
  "find_launch s inst launched =
     filter (\<lambda>u. u_instance u = inst
                \<and> gte (u_launched_at u) (dt_to_decimal (window_start launched))
                \<and> lte (u_launched_at u) (dt_to_decimal (window_end launched)))
            (usages s)"

definition find_reconcile :: "db \<Rightarrow> string \<Rightarrow> int \<Rightarrow> InstanceReconcile list" where
  "find_reconcile s inst launched =
     filter (\<lambda>r. r_instance r = inst
                \<and> gte (r_launched_at r) (dt_to_decimal (window_start launched))
                \<and> lte (r_launched_at r) (dt_to_decimal (window_end launched)))
            (reconciles s)"

text \<open>
  \<^verbatim>\<open>_find_delete(instance, launched, deleted_max=None)\<close>: the bound, a datetime, is
  applied whenever it is given (\<^verbatim>\<open>if deleted_max:\<close> holds for every datetime), as the
  lookup \<^verbatim>\<open>deleted_at__lte\<close>.
\<close>

definition find_delete :: "db \<Rightarrow> string \<Rightarrow> int \<Rightarrow> int option \<Rightarrow> InstanceDeletes list" where
  "find_delete s inst launched deleted_max =
     filter (\<lambda>d. d_instance d = inst
                \<and> gte (d_launched_at d) (dt_to_decimal (window_start launched))
                \<and> lte (d_launched_at d) (dt_to_decimal (window_end launched))
                \<and> (case deleted_max of
                      None \<Rightarrow> True
                    | Some m \<Rightarrow> lte (d_deleted_at d) (dt_to_decimal m)))
            (deletes s)"

section \<open>Verification engine\<close>

text \<open>\<^verbatim>\<open>exist.save()\<close> writes the snapshot to its row.\<close>

definition save :: "db \<Rightarrow> InstanceExists \<Rightarrow> db" where
  "save s exist = s\<lparr>exists_rows := (exists_rows s)(e_id exist \<mapsto> exist)\<rparr>"

text \<open>
  \<^verbatim>\<open>
  def _mark_exist_verified(exist, reconciled=False, reason=None):
      if not reconciled:
          exist.status = models.InstanceExists.VERIFIED
      else:
          exist.status = models.InstanceExists.RECONCILED
          if reason is not None:
              exist.fail_reason = reason
      exist.save()
  \<close>
  The model returns the mutated snapshot and the store.
\<close>

definition mark_exist_verified ::
  "db \<Rightarrow> InstanceExists \<Rightarrow> bool \<Rightarrow> string option \<Rightarrow> InstanceExists \<times> db" where
  "mark_exist_verified s exist reconciled reason =
     (let exist' =
        (if \<not> reconciled then exist\<lparr>e_status := VERIFIED\<rparr>
         else (case reason of
                 None \<Rightarrow> exist\<lparr>e_status := RECONCILED\<rparr>
               | Some r \<Rightarrow> exist\<lparr>e_status := RECONCILED, e_fail_reason := Some r\<rparr>))
      in (exist', save s exist'))"

text \<open>
  \<^verbatim>\<open>
  def _mark_exist_failed(exist, reason=None):
      exist.status = models.InstanceExists.FAILED
      if reason:
          exist.fail_reason = reason
      exist.save()
  \<close>
  \<^verbatim>\<open>if reason:\<close> is false for \<^verbatim>\<open>None\<close> and for the empty text.
\<close>

definition mark_exist_failed ::
  "db \<Rightarrow> InstanceExists \<Rightarrow> string option \<Rightarrow> InstanceExists \<times> db" where
  "mark_exist_failed s exist reason =
     (let exist' =
        (case reason of
           None \<Rightarrow> exist\<lparr>e_status := FAILED\<rparr>
         | Some r \<Rightarrow>
             if r \<noteq> [] then exist\<lparr>e_status := FAILED, e_fail_reason := Some r\<rparr>
             else exist\<lparr>e_status := FAILED\<rparr>)
      in (exist', save s exist'))"

text \<open>
  The query dictionaries handed to \<^verbatim>\<open>NotFound\<close> and \<^verbatim>\<open>AmbiguousResults\<close>.
\<close>

definition launched_query :: "InstanceExists \<Rightarrow> (string \<times> pyval) list" where
  "launched_query exist =
     [(''instance'', PyStr (e_instance exist)),
      (''launched_at'', dec_val (e_launched_at exist))]"

definition instance_query :: "InstanceExists \<Rightarrow> (string \<times> pyval) list" where
  "instance_query exist = [(''instance'', PyStr (e_instance exist))]"

text \<open>
  \<^verbatim>\<open>_verify_for_launch(exist, launch=None, launch_type="InstanceUsage")\<close>, in two
  steps: the launch record it settles on (the one handed in, else the one attached to the
  snapshot, else the single one a search finds), then the field comparison.
\<close>

definition resolve_launch ::
  "db \<Rightarrow> InstanceExists \<Rightarrow> InstanceUsage option \<Rightarrow> string \<Rightarrow> exc + InstanceUsage" where
  "resolve_launch s exist launch launch_type =
     (case launch of
        Some l \<Rightarrow> Inr l
      | None \<Rightarrow>
          (case e_usage exist of
             Some l \<Rightarrow> Inr l
           | None \<Rightarrow>
               if length (filter (\<lambda>u. u_instance u = e_instance exist) (usages s)) > 0 then
                 (case dt_from_decimal (e_launched_at exist) of
                    Inl e \<Rightarrow> Inl e
                  | Inr launched \<Rightarrow>
                      (let launches = find_launch s (e_instance exist) launched;
                           count = length launches
                       in if count > 1 then
                            Inl (AmbiguousResults launch_type (launched_query exist))
                          else if count = 0 then
                            Inl (NotFound launch_type (launched_query exist))
                          else Inr (hd launches)))
               else Inl (NotFound launch_type (instance_query exist))))"

definition verify_for_launch ::
  "db \<Rightarrow> InstanceExists \<Rightarrow> InstanceUsage option \<Rightarrow> string \<Rightarrow> exc + unit" where
  "verify_for_launch s exist launch launch_type =
     (case resolve_launch s exist launch launch_type of
        Inl e \<Rightarrow> Inl e
      | Inr l \<Rightarrow> verify_field_mismatch exist l)"

text \<open>
  \<^verbatim>\<open>_verify_for_delete(exist, delete=None, delete_type="InstanceDelete")\<close>: first the
  delete record it settles on, if any. With no record handed in or attached, a snapshot
  with a deleted-at needs exactly one delete record in the launch window, and any other
  count raises \<^verbatim>\<open>NotFound\<close>; a snapshot without one must have no delete record in
  the window up to its audit period's end.
\<close>

definition resolve_delete ::
  "db \<Rightarrow> InstanceExists \<Rightarrow> InstanceDeletes option \<Rightarrow> string
     \<Rightarrow> exc + InstanceDeletes option" where
  "resolve_delete s exist delete delete_type =
     (case delete of
        Some d \<Rightarrow> Inr (Some d)
      | None \<Rightarrow>
          (case e_delete exist of
             Some d \<Rightarrow> Inr (Some d)
           | None \<Rightarrow>
               if truthy (e_deleted_at exist) then
                 (case dt_from_decimal (e_launched_at exist) of
                    Inl e \<Rightarrow> Inl e
                  | Inr launched \<Rightarrow>
                      (let found = find_delete s (e_instance exist) launched None
                       in if length found = 1 then Inr (Some (hd found))
                          else Inl (NotFound delete_type (launched_query exist))))
               else
                 (case dt_from_decimal (e_launched_at exist) of
                    Inl e \<Rightarrow> Inl e
                  | Inr launched_at \<Rightarrow>
                      (let deleted_at_max = e_audit_period_ending exist;
                           found = find_delete s (e_instance exist) launched_at
                                     (Some deleted_at_max)
                       in if length found > 0 then
                            Inl (VerificationException
                                   (''Found '' @ delete_type @ ''s for non-delete exist''))
                          else Inr None))))"

definition verify_for_delete ::
  "db \<Rightarrow> InstanceExists \<Rightarrow> InstanceDeletes option \<Rightarrow> string \<Rightarrow> exc + unit" where
  "verify_for_delete s exist delete delete_type =
     (case resolve_delete s exist delete delete_type of
        Inl e \<Rightarrow> Inl e
      | Inr None \<Rightarrow> Inr ()
      | Inr (Some d) \<Rightarrow>
          if \<not> verify_date_field (d_launched_at d) (e_launched_at exist) True then
            Inl (FieldMismatch ''launched_at'' (dec_val (e_launched_at exist))
                   (dec_val (d_launched_at d)))
          else if \<not> verify_date_field (d_deleted_at d) (e_deleted_at exist) True then
            Inl (FieldMismatch ''deleted_at'' (dec_val (e_deleted_at exist))
                   (dec_val (d_deleted_at d)))
          else Inr ())"

text \<open>
  A reconcile record serves as the launch record and as the delete record of the second
  pass: \<^verbatim>\<open>_verify_for_launch\<close> and \<^verbatim>\<open>_verify_for_delete\<close> read from it the
  attributes they read from an \<^verbatim>\<open>InstanceUsage\<close> and an \<^verbatim>\<open>InstanceDeletes\<close>.
\<close>

definition as_launch :: "InstanceReconcile \<Rightarrow> InstanceUsage" where
  "as_launch r =
     \<lparr>u_instance = r_instance r, u_launched_at = r_launched_at r,
      u_instance_type_id = r_instance_type_id r, u_tenant = r_tenant r,
      u_rax_options = r_rax_options r, u_os_architecture = r_os_architecture r,
      u_os_version = r_os_version r, u_os_distro = r_os_distro r\<rparr>"

definition as_delete :: "InstanceReconcile \<Rightarrow> InstanceDeletes" where
  "as_delete r =
     \<lparr>d_instance = r_instance r, d_launched_at = r_launched_at r,
      d_deleted_at = r_deleted_at r\<rparr>"

text \<open>
  The reconcile lookup of \<^verbatim>\<open>_verify_with_reconciled_data\<close>: more than one record
  in the window raises \<^verbatim>\<open>AmbiguousResults\<close>, none raises \<^verbatim>\<open>NotFound\<close>.
\<close>

definition resolve_reconcile :: "db \<Rightarrow> InstanceExists \<Rightarrow> exc + InstanceReconcile" where
  "resolve_reconcile s exist =
     (if length (filter (\<lambda>r. r_instance r = e_instance exist) (reconciles s)) > 0 then
        (case dt_from_decimal (e_launched_at exist) of
           Inl e \<Rightarrow> Inl e
         | Inr launched \<Rightarrow>
             (let recs = find_reconcile s (e_instance exist) launched;
                  count = length recs
              in if count > 1 then
                   Inl (AmbiguousResults ''InstanceReconcile'' (launched_query exist))
                 else if count = 0 then
                   Inl (NotFound ''InstanceReconcile'' (launched_query exist))
                 else Inr (hd recs)))
      else Inl (NotFound ''InstanceReconcile'' (instance_query exist)))"

text \<open>
  \<^verbatim>\<open>_verify_with_reconciled_data(exist, ex)\<close>; the argument \<^verbatim>\<open>ex\<close> is not used.
\<close>

definition verify_with_reconciled_data :: "db \<Rightarrow> InstanceExists \<Rightarrow> exc \<Rightarrow> exc + unit" where
  "verify_with_reconciled_data s exist ex =
     (if \<not> truthy (e_launched_at exist) then
        Inl (VerificationException ''Exists without a launched_at'')
      else
        (case resolve_reconcile s exist of
           Inl e \<Rightarrow> Inl e
         | Inr reconcile \<Rightarrow>
             (case verify_for_launch s exist (Some (as_launch reconcile))
                     ''InstanceReconcile'' of
                Inl e \<Rightarrow> Inl e
              | Inr u \<Rightarrow>
                  verify_for_delete s exist (Some (as_delete reconcile))
                    ''InstanceReconcile'')))"

text \<open>
  The text of an exception, \<^verbatim>\<open>str(e)\<close>, is defined by the classes of the
  \<^verbatim>\<open>verifier\<close> package; the engine takes it as the parameter \<open>str\<close>.

  \<^verbatim>\<open>
  def _attempt_reconciled_verify(exist, orig_e):
      verified = False
      try:
          _verify_with_reconciled_data(exist, orig_e)
          verified = True
          _mark_exist_verified(exist)
      except NotFound, rec_e:
          _mark_exist_failed(exist, reason=str(orig_e))
      except VerificationException, rec_e:
          _mark_exist_failed(exist, reason=str(rec_e))
      except Exception, rec_e:
          _mark_exist_failed(exist, reason=rec_e.__class__.__name__)
          LOG.exception(rec_e)
      return verified
  \<close>
  The model returns the flag with the mutated snapshot and the store.
\<close>

definition attempt_reconciled_verify ::
  "(exc \<Rightarrow> string) \<Rightarrow> db \<Rightarrow> InstanceExists \<Rightarrow> exc \<Rightarrow> bool \<times> InstanceExists \<times> db" where
  "attempt_reconciled_verify str s exist orig_e =
     (case verify_with_reconciled_data s exist orig_e of
        Inr u \<Rightarrow> (True, mark_exist_verified s exist False None)
      | Inl rec_e \<Rightarrow>
          if is_NotFound rec_e then
            (False, mark_exist_failed s exist (Some (str orig_e)))
          else if is_VerificationException rec_e then
            (False, mark_exist_failed s exist (Some (str rec_e)))
          else (False, mark_exist_failed s exist (Some (class_name rec_e))))"

text \<open>
  The fast path, the \<^verbatim>\<open>try\<close> block of \<^verbatim>\<open>_verify\<close> up to the marking:
  \<^verbatim>\<open>
  if not exist.launched_at:
      raise VerificationException("Exists without a launched_at")
  _verify_for_launch(exist)
  _verify_for_delete(exist)
  \<close>
\<close>

definition fast_path :: "db \<Rightarrow> InstanceExists \<Rightarrow> exc + unit" where
  "fast_path s exist =
     (if \<not> truthy (e_launched_at exist) then
        Inl (VerificationException ''Exists without a launched_at'')
      else
        (case verify_for_launch s exist None ''InstanceUsage'' of
           Inl e \<Rightarrow> Inl e
         | Inr u \<Rightarrow> verify_for_delete s exist None ''InstanceDelete''))"

text \<open>
  \<^verbatim>\<open>_verify(exist)\<close>: a verification-level exception of the fast path starts the
  second pass, any other exception marks the snapshot failed with its class name. The
  result is the pair \<^verbatim>\<open>(verified, exist)\<close> and the store.
\<close>

definition verify ::
  "(exc \<Rightarrow> string) \<Rightarrow> db \<Rightarrow> InstanceExists \<Rightarrow> (bool \<times> InstanceExists) \<times> db" where
  "verify str s exist =
     (case fast_path s exist of
        Inr u \<Rightarrow>
          (let (exist', s') = mark_exist_verified s exist False None
           in ((True, exist'), s'))
      | Inl e \<Rightarrow>
          if is_VerificationException e then
            (let (verified, exist', s') = attempt_reconciled_verify str s exist e
             in ((verified, exist'), s'))
          else
            (let (exist', s') = mark_exist_failed s exist (Some (class_name e))
             in ((False, exist'), s')))"

section \<open>The verification of one snapshot against a store that can fail\<close>

text \<open>
  The definitions above take every query and every \<^verbatim>\<open>exist.save()\<close> to succeed. A
  store can be unavailable: a query or a save then raises an exception of the database
  layer, which is no \<^verbatim>\<open>VerificationException\<close>. The definitions of this section
  follow the same code with that possibility written out.

  A call meets the store at its queries (every \<^verbatim>\<open>.count()\<close> and every
  \<^verbatim>\<open>[0]\<close> on a query set; building a query set with \<^verbatim>\<open>filter\<close> sends nothing)
  and at its saves. For the queries of a call, in their order, a list says which succeed
  (\<open>None\<close>) and which raise (\<open>Some\<close> of the exception's class name); a second list
  says the same for the saves. An operation beyond the end of its list succeeds. The
  launch and delete records attached to a snapshot are loaded with it and cost no query.
\<close>

type_synonym faults = "string option list"

type_synonym 'a reading = "faults \<Rightarrow> (exc + 'a) \<times> faults"

definition return_r :: "'a \<Rightarrow> 'a reading" where
  "return_r x fs = (Inr x, fs)"

definition raise_r :: "exc \<Rightarrow> 'a reading" where
  "raise_r e fs = (Inl e, fs)"

definition bind_r :: "'a reading \<Rightarrow> ('a \<Rightarrow> 'b reading) \<Rightarrow> 'b reading" where
  "bind_r m k fs = (case m fs of (Inl e, fs') \<Rightarrow> (Inl e, fs') | (Inr x, fs') \<Rightarrow> k x fs')"

text \<open>A query that would answer \<open>r\<close>: it answers, or it raises the store's exception.\<close>

definition query :: "'a \<Rightarrow> 'a reading" where
  "query r fs =
     (case fs of
        [] \<Rightarrow> (Inr r, [])
      | None # fs' \<Rightarrow> (Inr r, fs')
      | Some cls # fs' \<Rightarrow> (Inl (OtherException cls), fs'))"

text \<open>\<^verbatim>\<open>_verify_for_launch\<close>, with its three queries.\<close>

definition resolve_launch_io ::
  "db \<Rightarrow> InstanceExists \<Rightarrow> InstanceUsage option \<Rightarrow> string \<Rightarrow> InstanceUsage reading" where
  "resolve_launch_io s exist launch launch_type =
     (case launch of
        Some l \<Rightarrow> return_r l
      | None \<Rightarrow>
          (case e_usage exist of
             Some l \<Rightarrow> return_r l
           | None \<Rightarrow>
               bind_r (query (length (filter (\<lambda>u. u_instance u = e_instance exist) (usages s))))
                 (\<lambda>n. if n > 0 then
                        (case dt_from_decimal (e_launched_at exist) of
                           Inl e \<Rightarrow> raise_r e
                         | Inr launched \<Rightarrow>
                             (let launches = find_launch s (e_instance exist) launched
                              in bind_r (query (length launches))
                                   (\<lambda>count.
                                      if count > 1 then
                                        raise_r (AmbiguousResults launch_type
                                                   (launched_query exist))
                                      else if count = 0 then
                                        raise_r (NotFound launch_type (launched_query exist))
                                      else query (hd launches))))
                      else raise_r (NotFound launch_type (instance_query exist)))))"

definition verify_for_launch_io ::
  "db \<Rightarrow> InstanceExists \<Rightarrow> InstanceUsage option \<Rightarrow> string \<Rightarrow> unit reading" where
  "verify_for_launch_io s exist launch launch_type =
     bind_r (resolve_launch_io s exist launch launch_type)
       (\<lambda>l. case verify_field_mismatch exist l of
               Inl e \<Rightarrow> raise_r e
             | Inr u \<Rightarrow> return_r ())"

text \<open>\<^verbatim>\<open>_verify_for_delete\<close>, with two queries in its first search and one in its second.\<close>

definition resolve_delete_io ::
  "db \<Rightarrow> InstanceExists \<Rightarrow> InstanceDeletes option \<Rightarrow> string
     \<Rightarrow> InstanceDeletes option reading" where
  "resolve_delete_io s exist delete delete_type =
     (case delete of
        Some d \<Rightarrow> return_r (Some d)
      | None \<Rightarrow>
          (case e_delete exist of
             Some d \<Rightarrow> return_r (Some d)
           | None \<Rightarrow>
               if truthy (e_deleted_at exist) then
                 (case dt_from_decimal (e_launched_at exist) of
                    Inl e \<Rightarrow> raise_r e
                  | Inr launched \<Rightarrow>
                      (let found = find_delete s (e_instance exist) launched None
                       in bind_r (query (length found))
                            (\<lambda>count.
                               if count = 1 then bind_r (query (hd found)) (\<lambda>d. return_r (Some d))
                               else raise_r (NotFound delete_type (launched_query exist)))))
               else
                 (case dt_from_decimal (e_launched_at exist) of
                    Inl e \<Rightarrow> raise_r e
                  | Inr launched_at \<Rightarrow>
                      (let deleted_at_max = e_audit_period_ending exist;
                           found = find_delete s (e_instance exist) launched_at
                                     (Some deleted_at_max)
                       in bind_r (query (length found))
                            (\<lambda>count.
                               if count > 0 then
                                 raise_r (VerificationException
                                   (''Found '' @ delete_type @ ''s for non-delete exist''))
                               else return_r None)))))"

definition verify_for_delete_io ::
  "db \<Rightarrow> InstanceExists \<Rightarrow> InstanceDeletes option \<Rightarrow> string \<Rightarrow> unit reading" where
  "verify_for_delete_io s exist delete delete_type =
     bind_r (resolve_delete_io s exist delete delete_type)
       (\<lambda>found. case found of
          None \<Rightarrow> return_r ()
        | Some d \<Rightarrow>
            if \<not> verify_date_field (d_launched_at d) (e_launched_at exist) True then
              raise_r (FieldMismatch ''launched_at'' (dec_val (e_launched_at exist))
                         (dec_val (d_launched_at d)))
            else if \<not> verify_date_field (d_deleted_at d) (e_deleted_at exist) True then
              raise_r (FieldMismatch ''deleted_at'' (dec_val (e_deleted_at exist))
                         (dec_val (d_deleted_at d)))
            else return_r ())"

text \<open>\<^verbatim>\<open>_verify_with_reconciled_data\<close>, with the three queries of its lookup.\<close>

definition resolve_reconcile_io :: "db \<Rightarrow> InstanceExists \<Rightarrow> InstanceReconcile reading" where
  "resolve_reconcile_io s exist =
     bind_r (query (length (filter (\<lambda>r. r_instance r = e_instance exist) (reconciles s))))
       (\<lambda>n. if n > 0 then
              (case dt_from_decimal (e_launched_at exist) of
                 Inl e \<Rightarrow> raise_r e
               | Inr launched \<Rightarrow>
                   (let recs = find_reconcile s (e_instance exist) launched
                    in bind_r (query (length recs))
                         (\<lambda>count.
                            if count > 1 then
                              raise_r (AmbiguousResults ''InstanceReconcile''
                                         (launched_query exist))
                            else if count = 0 then
                              raise_r (NotFound ''InstanceReconcile'' (launched_query exist))
                            else query (hd recs))))
            else raise_r (NotFound ''InstanceReconcile'' (instance_query exist)))"

definition verify_with_reconciled_data_io ::
  "db \<Rightarrow> InstanceExists \<Rightarrow> exc \<Rightarrow> unit reading" where
  "verify_with_reconciled_data_io s exist ex =
     (if \<not> truthy (e_launched_at exist) then
        raise_r (VerificationException ''Exists without a launched_at'')
      else
        bind_r (resolve_reconcile_io s exist)
          (\<lambda>reconcile.
             bind_r (verify_for_launch_io s exist (Some (as_launch reconcile))
                       ''InstanceReconcile'')
               (\<lambda>u. verify_for_delete_io s exist (Some (as_delete reconcile))
                       ''InstanceReconcile'')))"

definition fast_path_io :: "db \<Rightarrow> InstanceExists \<Rightarrow> unit reading" where
  "fast_path_io s exist =
     (if \<not> truthy (e_launched_at exist) then
        raise_r (VerificationException ''Exists without a launched_at'')
      else
        bind_r (verify_for_launch_io s exist None ''InstanceUsage'')
          (\<lambda>u. verify_for_delete_io s exist None ''InstanceDelete''))"

text \<open>
  The state of a call: the snapshot object \<^verbatim>\<open>exist\<close>, which the marking functions
  change in place, the store, and what the store will answer to the queries and saves to
  come.
\<close>

record world =
  w_exist :: InstanceExists
  w_db :: db
  w_read_faults :: faults
  w_write_faults :: faults

text \<open>
  \<^verbatim>\<open>exist.save()\<close>: it writes the object to its row, or it raises the store's
  exception and the row stays as it is.
\<close>

definition save_io :: "world \<Rightarrow> (exc + unit) \<times> world" where
  "save_io w =
     (case w_write_faults w of
        [] \<Rightarrow> (Inr (), w\<lparr>w_db := save (w_db w) (w_exist w)\<rparr>)
      | None # fs \<Rightarrow>
          (Inr (), w\<lparr>w_db := save (w_db w) (w_exist w), w_write_faults := fs\<rparr>)
      | Some cls # fs \<Rightarrow> (Inl (OtherException cls), w\<lparr>w_write_faults := fs\<rparr>))"

text \<open>
  \<^verbatim>\<open>_mark_exist_verified\<close> and \<^verbatim>\<open>_mark_exist_failed\<close>: the object is changed, then
  saved.
\<close>

definition mark_exist_verified_io ::
  "bool \<Rightarrow> string option \<Rightarrow> world \<Rightarrow> (exc + unit) \<times> world" where
  "mark_exist_verified_io reconciled reason w =
     save_io (w\<lparr>w_exist :=
       (if \<not> reconciled then (w_exist w)\<lparr>e_status := VERIFIED\<rparr>
        else (case reason of
                None \<Rightarrow> (w_exist w)\<lparr>e_status := RECONCILED\<rparr>
              | Some r \<Rightarrow> (w_exist w)\<lparr>e_status := RECONCILED, e_fail_reason := Some r\<rparr>))\<rparr>)"

definition mark_exist_failed_io :: "string option \<Rightarrow> world \<Rightarrow> (exc + unit) \<times> world" where
  "mark_exist_failed_io reason w =
     save_io (w\<lparr>w_exist :=
       (case reason of
          None \<Rightarrow> (w_exist w)\<lparr>e_status := FAILED\<rparr>
        | Some r \<Rightarrow>
            if r \<noteq> [] then (w_exist w)\<lparr>e_status := FAILED, e_fail_reason := Some r\<rparr>
            else (w_exist w)\<lparr>e_status := FAILED\<rparr>)\<rparr>)"

text \<open>
  The \<^verbatim>\<open>except\<close> clauses of \<^verbatim>\<open>_attempt_reconciled_verify\<close>, for the exception
  \<open>rec_e\<close> raised in its \<^verbatim>\<open>try\<close> block when the flag stood at \<open>verified\<close>. An
  exception raised by the marking inside a clause leaves the function.
\<close>

definition reconciled_handlers ::
  "(exc \<Rightarrow> string) \<Rightarrow> exc \<Rightarrow> bool \<Rightarrow> exc \<Rightarrow> world \<Rightarrow> (exc + bool) \<times> world" where
  "reconciled_handlers str orig_e verified rec_e w =
     (case mark_exist_failed_io
             (Some (if is_NotFound rec_e then str orig_e
                    else if is_VerificationException rec_e then str rec_e
                    else class_name rec_e)) w of
        (Inl e, w') \<Rightarrow> (Inl e, w')
      | (Inr u, w') \<Rightarrow> (Inr verified, w'))"

text \<open>
  \<^verbatim>\<open>_attempt_reconciled_verify\<close>: the flag is set between the second pass and the
  marking, so an exception of the marking meets the clauses with the flag true.
\<close>

definition attempt_reconciled_verify_io ::
  "(exc \<Rightarrow> string) \<Rightarrow> exc \<Rightarrow> world \<Rightarrow> (exc + bool) \<times> world" where
  "attempt_reconciled_verify_io str orig_e w =
     (case verify_with_reconciled_data_io (w_db w) (w_exist w) orig_e (w_read_faults w) of
        (Inl rec_e, fs) \<Rightarrow>
          reconciled_handlers str orig_e False rec_e (w\<lparr>w_read_faults := fs\<rparr>)
      | (Inr u, fs) \<Rightarrow>
          (case mark_exist_verified_io False None (w\<lparr>w_read_faults := fs\<rparr>) of
             (Inl rec_e, w') \<Rightarrow> reconciled_handlers str orig_e True rec_e w'
           | (Inr u', w') \<Rightarrow> (Inr True, w')))"

text \<open>
  The \<^verbatim>\<open>except\<close> clauses of \<^verbatim>\<open>_verify\<close>: a verification-level exception starts the
  second pass, whose result becomes the flag; any other exception marks the snapshot
  failed with its class name and leaves the flag as it stood.
\<close>

definition verify_handlers ::
  "(exc \<Rightarrow> string) \<Rightarrow> bool \<Rightarrow> exc \<Rightarrow> world \<Rightarrow> (exc + bool) \<times> world" where
  "verify_handlers str verified e w =
     (if is_VerificationException e then attempt_reconciled_verify_io str e w
      else
        (case mark_exist_failed_io (Some (class_name e)) w of
           (Inl e', w') \<Rightarrow> (Inl e', w')
         | (Inr u, w') \<Rightarrow> (Inr verified, w')))"

text \<open>
  \<^verbatim>\<open>_verify(exist)\<close>: the result is the exception that leaves the call, or the flag;
  the snapshot of the returned pair is \<open>w_exist\<close> of the final state.
\<close>

definition verify_io :: "(exc \<Rightarrow> string) \<Rightarrow> world \<Rightarrow> (exc + bool) \<times> world" where
  "verify_io str w =
     (case fast_path_io (w_db w) (w_exist w) (w_read_faults w) of
        (Inl e, fs) \<Rightarrow> verify_handlers str False e (w\<lparr>w_read_faults := fs\<rparr>)
      | (Inr u, fs) \<Rightarrow>
          (case mark_exist_verified_io False None (w\<lparr>w_read_faults := fs\<rparr>) of
             (Inl e, w') \<Rightarrow> verify_handlers str True e w'
           | (Inr u', w') \<Rightarrow> (Inr True, w')))"

section \<open>Notification\<close>

text \<open>
  The broker connection: the exchanges declared on it and the messages published, each
  with its routing key, in order.
\<close>

text \<open>
  An exchange as the library \<^verbatim>\<open>kombu\<close> holds it. Of its attributes the verifier sets
  the name, the type, \<^verbatim>\<open>durable\<close> and \<^verbatim>\<open>auto_delete\<close>. An exchange has no attribute
  \<^verbatim>\<open>exclusive\<close> (a queue has one).
\<close>

record Exchange =
  ex_name :: string
  ex_type :: string
  ex_durable :: bool
  ex_auto_delete :: bool

record connection =
  declared :: "Exchange list"
  published :: "(string \<times> (string \<rightharpoonup> json)) list"

text \<open>
  \<^verbatim>\<open>_send_notification(message, routing_key, connection, exchange)\<close> declares the
  exchange unless it is declared already and publishes the message under the key.
\<close>

definition send_notification ::
  "(string \<rightharpoonup> json) \<Rightarrow> string \<Rightarrow> connection \<Rightarrow> Exchange \<Rightarrow> connection" where
  "send_notification message routing_key conn exchange =
     conn\<lparr>declared := (if exchange \<in> set (declared conn) then declared conn
                        else declared conn @ [exchange]),
          published := published conn @ [(routing_key, message)]\<rparr>"

text \<open>
  \<^verbatim>\<open>
  def send_verified_notification(exist, connection, exchange, routing_keys=None):
      body = exist.raw.json
      json_body = json.loads(body)
      json_body[1]['event_type'] = 'compute.instance.exists.verified.old'
      json_body[1]['original_message_id'] = json_body[1]['message_id']
      json_body[1]['message_id'] = str(uuid.uuid4())
      if routing_keys is None:
          _send_notification(json_body[1], json_body[0], connection, exchange)
      else:
          for key in routing_keys:
              _send_notification(json_body[1], key, connection, exchange)
  \<close>
  The generated identifier \<^verbatim>\<open>str(uuid.uuid4())\<close> is the argument \<open>new_id\<close>. Reading
  \<^verbatim>\<open>message_id\<close> from a payload without it raises \<^verbatim>\<open>KeyError\<close>.
\<close>

definition verified_body :: "string \<Rightarrow> (string \<rightharpoonup> json) \<Rightarrow> exc + (string \<rightharpoonup> json)" where
  "verified_body new_id payload =
     (let b1 = payload(''event_type'' \<mapsto> JStr ''compute.instance.exists.verified.old'')
      in case b1 ''message_id'' of
           None \<Rightarrow> Inl (OtherException ''KeyError'')
         | Some mid \<Rightarrow>
             Inr ((b1(''original_message_id'' \<mapsto> mid))(''message_id'' \<mapsto> JStr new_id)))"

definition send_verified_notification ::
  "string \<Rightarrow> InstanceExists \<Rightarrow> connection \<Rightarrow> Exchange \<Rightarrow> string list option
     \<Rightarrow> exc + connection" where
  "send_verified_notification new_id exist conn exchange routing_keys =
     (case verified_body new_id (raw_payload (e_raw exist)) of
        Inl e \<Rightarrow> Inl e
      | Inr body \<Rightarrow>
          (case routing_keys of
             None \<Rightarrow> Inr (send_notification body (raw_routing_key (e_raw exist)) conn exchange)
           | Some keys \<Rightarrow>
               Inr (fold (\<lambda>key c. send_notification body key c exchange) keys conn)))"

text \<open>
  The constructor \<^verbatim>\<open>kombu.entity.Exchange(name, type=..., **kwargs)\<close>: of the keyword
  arguments it keeps those that name an attribute of an exchange, \<^verbatim>\<open>durable\<close> with
  the default \<^verbatim>\<open>True\<close> and \<^verbatim>\<open>auto_delete\<close> with the default \<^verbatim>\<open>False\<close>; any
  other keyword is ignored.
\<close>

definition kombu_Exchange :: "string \<Rightarrow> string \<Rightarrow> (string \<times> bool) list \<Rightarrow> Exchange" where
  "kombu_Exchange name type kwargs =
     \<lparr>ex_name = name, ex_type = type,
      ex_durable = (case map_of kwargs ''durable'' of None \<Rightarrow> True | Some b \<Rightarrow> b),
      ex_auto_delete = (case map_of kwargs ''auto_delete'' of None \<Rightarrow> False | Some b \<Rightarrow> b)\<rparr>"

text \<open>
  \<^verbatim>\<open>
  def _create_exchange(name, type, exclusive=False, auto_delete=False, durable=True):
      return kombu.entity.Exchange(name, type=type, exclusive=auto_delete,
                                   auto_delete=exclusive, durable=durable)
  \<close>
\<close>

definition create_exchange :: "string \<Rightarrow> string \<Rightarrow> bool \<Rightarrow> bool \<Rightarrow> bool \<Rightarrow> Exchange" where
  "create_exchange name type exclusive auto_delete durable =
     kombu_Exchange name type
       [(''exclusive'', auto_delete), (''auto_delete'', exclusive), (''durable'', durable)]"

text \<open>
  The broker settings \<^verbatim>\<open>config['rabbit']\<close> that \<^verbatim>\<open>Verifier.run\<close> and
  \<^verbatim>\<open>Verifier.run_once\<close> read, and the exchange both create:
  \<^verbatim>\<open>_create_exchange(self.config['rabbit']['exchange_name'], 'topic',
  durable=self.config['rabbit']['durable_queue'])\<close>, with \<^verbatim>\<open>exclusive\<close> and
  \<^verbatim>\<open>auto_delete\<close> at their default \<^verbatim>\<open>False\<close>.
\<close>

record rabbit_config =
  exchange_name :: string
  durable_queue :: bool
  routing_keys :: "string list option"

definition run_exchange :: "rabbit_config \<Rightarrow> Exchange" where
  "run_exchange rabbit =
     create_exchange (exchange_name rabbit) ''topic'' False False (durable_queue rabbit)"

definition run_once_exchange :: "rabbit_config \<Rightarrow> Exchange" where
  "run_once_exchange rabbit =
     create_exchange (exchange_name rabbit) ''topic'' False False (durable_queue rabbit)"

section \<open>The specification's wording\<close>

text \<open>
  The same-second comparison as the specification words it: equal exactly, or equal when
  both values are truncated to whole seconds; an absent value never matches.
\<close>

definition same_second_equal :: "decimal option \<Rightarrow> decimal option \<Rightarrow> bool" where
  "same_second_equal d1 d2 =
     (case (d1, d2) of
        (Some a, Some b) \<Rightarrow> a = b \<or> py_int a = py_int b
      | _ \<Rightarrow> False)"

text \<open>
  The matcher as the specification words it: the comparisons in their fixed order, each
  with the field's name, whether the two sides agree, the snapshot's value and the
  candidate's value; the first comparison that disagrees is the one reported. The
  comparison of the two launched-at values is the argument \<open>launched_ok\<close>; the
  specification's is \<open>same_second_equal\<close>.
\<close>

definition field_checks ::
  "(decimal option \<Rightarrow> decimal option \<Rightarrow> bool) \<Rightarrow> InstanceExists \<Rightarrow> InstanceUsage
     \<Rightarrow> (string \<times> bool \<times> pyval \<times> pyval) list" where
  "field_checks launched_ok exist launch =
     [(''launched_at'', launched_ok (u_launched_at launch) (e_launched_at exist),
         dec_val (e_launched_at exist), dec_val (u_launched_at launch)),
      (''instance_type_id'', u_instance_type_id launch = e_instance_type_id exist,
         str_val (e_instance_type_id exist), str_val (u_instance_type_id launch)),
      (''tenant'', u_tenant launch = e_tenant exist,
         str_val (e_tenant exist), str_val (u_tenant launch)),
      (''rax_options'', u_rax_options launch = e_rax_options exist,
         str_val (e_rax_options exist), str_val (u_rax_options launch)),
      (''os_architecture'', u_os_architecture launch = e_os_architecture exist,
         str_val (e_os_architecture exist), str_val (u_os_architecture launch)),
      (''os_version'', u_os_version launch = e_os_version exist,
         str_val (e_os_version exist), str_val (u_os_version launch)),
      (''os_distro'', u_os_distro launch = e_os_distro exist,
         str_val (e_os_distro exist), str_val (u_os_distro launch))]"

definition first_mismatch :: "(string \<times> bool \<times> pyval \<times> pyval) list \<Rightarrow> exc + unit" where
  "first_mismatch checks =
     (case find (\<lambda>c. \<not> fst (snd c)) checks of
        None \<Rightarrow> Inr ()
      | Some (field, ok, expected, actual) \<Rightarrow> Inl (FieldMismatch field expected actual))"

text \<open>
  The launch window as the specification words it: the second that encloses the launch
  timestamp. A record with no launch timestamp lies in no window.
\<close>

definition in_launch_window :: "int \<Rightarrow> decimal option \<Rightarrow> bool" where
  "in_launch_window launched col =
     (case col of None \<Rightarrow> False | Some l \<Rightarrow> l div 1000000 = launched div 1000000)"

text \<open>
  The delete records that contradict a snapshot without a deleted-at: those of the same
  instance, in the launch window, deleted at or before the end of the audit period.
\<close>

definition contradicting_deletes :: "db \<Rightarrow> InstanceExists \<Rightarrow> int \<Rightarrow> InstanceDeletes list" where
  "contradicting_deletes s exist launched =
     filter (\<lambda>d. d_instance d = e_instance exist
                \<and> in_launch_window launched (d_launched_at d)
                \<and> (case d_deleted_at d of
                      None \<Rightarrow> False
                    | Some t \<Rightarrow> t \<le> e_audit_period_ending exist))
            (deletes s)"

section \<open>Sample records\<close>

text \<open>
  Concrete records for the examples below: an instance launched on 2013-01-01 at
  00:00:00.123456, its launch record, a delete record and a reconcile record of the same
  second, and a snapshot whose audit period ends an hour after the launch. The examples
  render an exception's text with \<open>sample_str\<close>; the general theorems hold for every
  rendering.
\<close>

fun sample_str :: "exc \<Rightarrow> string" where
  "sample_str (VerificationException r) = r"
| "sample_str (NotFound t q) = ''No '' @ t @ '' found''"
| "sample_str (AmbiguousResults t q) = ''Several '' @ t @ '' found''"
| "sample_str (FieldMismatch f x y) = ''Mismatch of '' @ f"
| "sample_str (OtherException n) = n"

definition sample_usage :: InstanceUsage where
  "sample_usage =
     \<lparr>u_instance = ''inst-1'', u_launched_at = Some 1356998400123456,
      u_instance_type_id = Some ''2'', u_tenant = Some ''tenant-a'',
      u_rax_options = Some ''0'', u_os_architecture = Some ''x64'',
      u_os_version = Some ''12.04'', u_os_distro = Some ''ubuntu''\<rparr>"

definition sample_delete :: InstanceDeletes where
  "sample_delete =
     \<lparr>d_instance = ''inst-1'', d_launched_at = Some 1356998400000000,
      d_deleted_at = Some 1357000000000000\<rparr>"

definition sample_reconcile :: InstanceReconcile where
  "sample_reconcile =
     \<lparr>r_instance = ''inst-1'', r_launched_at = Some 1356998400000000,
      r_deleted_at = Some 1357000000000000,
      r_instance_type_id = Some ''2'', r_tenant = Some ''tenant-a'',
      r_rax_options = Some ''0'', r_os_architecture = Some ''x64'',
      r_os_version = Some ''12.04'', r_os_distro = Some ''ubuntu''\<rparr>"

definition sample_raw :: RawData where
  "sample_raw =
     \<lparr>raw_routing_key = ''monitor.info'',
      raw_payload = [''event_type'' \<mapsto> JStr ''compute.instance.exists'',
                     ''message_id'' \<mapsto> JStr ''msg-1'',
                     ''priority'' \<mapsto> JStr ''INFO'']\<rparr>"

definition sample_exist :: InstanceExists where
  "sample_exist =
     \<lparr>e_id = 1, e_instance = ''inst-1'', e_launched_at = Some 1356998400123456,
      e_deleted_at = None, e_audit_period_ending = 1357002000000000,
      e_instance_type_id = Some ''2'', e_tenant = Some ''tenant-a'',
      e_rax_options = Some ''0'', e_os_architecture = Some ''x64'',
      e_os_version = Some ''12.04'', e_os_distro = Some ''ubuntu'',
      e_status = VERIFYING, e_fail_reason = None, e_usage = None, e_delete = None,
      e_raw = sample_raw\<rparr>"

definition sample_deleted_exist :: InstanceExists where
  "sample_deleted_exist = sample_exist\<lparr>e_deleted_at := Some 1357000000500000\<rparr>"

definition store ::
  "InstanceUsage list \<Rightarrow> InstanceDeletes list \<Rightarrow> InstanceReconcile list \<Rightarrow> db" where
  "store us ds rs = \<lparr>usages = us, deletes = ds, reconciles = rs, exists_rows = Map.empty\<rparr>"

text \<open>
  A store whose only launch record names another tenant, with a reconcile record that
  agrees with the deleted snapshot in every field.
\<close>

definition tenant_mismatch_store :: db where
  "tenant_mismatch_store =
     store [sample_usage\<lparr>u_tenant := Some ''tenant-b''\<rparr>] [sample_delete] [sample_reconcile]"

text \<open>A store with two delete records in the launch window of the instance.\<close>

definition two_deletes_store :: db where
  "two_deletes_store =
     store [sample_usage]
       [sample_delete, sample_delete\<lparr>d_launched_at := Some 1356998400999999\<rparr>] []"

definition sample_connection :: connection where
  "sample_connection = \<lparr>declared = [], published = []\<rparr>"

text \<open>
  The sample snapshot, saved as \<open>VERIFYING\<close>, with its matching launch record in the
  store, before a call: with every operation succeeding, with the first query failing,
  and with every save failing.
\<close>

definition sample_world :: "faults \<Rightarrow> faults \<Rightarrow> world" where
  "sample_world reads writes =
     \<lparr>w_exist = sample_exist,
      w_db = (store [sample_usage] [] [])\<lparr>exists_rows := [1 \<mapsto> sample_exist]\<rparr>,
      w_read_faults = reads, w_write_faults = writes\<rparr>"

text \<open>
  A snapshot launched half a second after the epoch and a launch record of the same
  instance dated at the epoch itself, the decimal zero, with another tenant.
\<close>

definition epoch_exist :: InstanceExists where
  "epoch_exist = sample_exist\<lparr>e_launched_at := Some 500000\<rparr>"

definition epoch_usage :: InstanceUsage where
  "epoch_usage = sample_usage\<lparr>u_launched_at := Some 0, u_tenant := Some ''tenant-b''\<rparr>"

text \<open>A delete record of the sample instance, deleted at the very end of the audit period.\<close>

definition boundary_delete :: InstanceDeletes where
  "boundary_delete = sample_delete\<lparr>d_deleted_at := Some 1357002000000000\<rparr>"

section \<open>Evaluation rules\<close>

lemmas sample_defs =
  sample_usage_def sample_delete_def sample_reconcile_def sample_raw_def sample_exist_def
  sample_deleted_exist_def store_def tenant_mismatch_store_def two_deletes_store_def
  sample_connection_def sample_world_def epoch_exist_def epoch_usage_def
  boundary_delete_def

lemmas finder_defs =
  find_launch_def find_delete_def find_reconcile_def gte_def lte_def window_start_def
  window_end_def dt_to_decimal_def dt_from_decimal_def

lemmas matcher_defs =
  verify_field_mismatch_def verify_date_field_def truthy_def py_int_def dec_val_def
  str_val_def

lemmas engine_defs =
  fast_path_def verify_for_launch_def resolve_launch_def verify_for_delete_def
  resolve_delete_def verify_with_reconciled_data_def resolve_reconcile_def as_launch_def
  as_delete_def launched_query_def instance_query_def

lemmas io_defs =
  return_r_def raise_r_def bind_r_def query_def resolve_launch_io_def
  verify_for_launch_io_def resolve_delete_io_def verify_for_delete_io_def
  resolve_reconcile_io_def verify_with_reconciled_data_io_def fast_path_io_def save_io_def
  mark_exist_verified_io_def mark_exist_failed_io_def reconciled_handlers_def
  attempt_reconciled_verify_io_def verify_handlers_def verify_io_def

section \<open>Matcher\<close>

text \<open>
  Claim C8, as stated: for every pair of timestamp values the same-second comparison
  holds exactly when the values are equal or their whole seconds are equal. It fails for
  the timestamp zero (the epoch itself): the guard \<^verbatim>\<open>if d1 and d2\<close> takes a zero
  decimal for an absent value, so two equal zero timestamps do not match.
\<close>

theorem verify_date_field_zero_counterexample:
  "same_second_equal (Some 0) (Some 0) \<and> \<not> verify_date_field (Some 0) (Some 0) True"
  by (simp add: same_second_equal_def verify_date_field_def truthy_def)

text \<open>
  Claim C8, amended: the same-second comparison holds exactly when both values are
  present and not zero, and they are equal or their truncations to whole seconds are
  equal; in every other case, also when either value is absent or zero, it reports a
  mismatch.
\<close>

theorem verify_date_field_same_second:
  "verify_date_field d1 d2 True = (truthy d1 \<and> truthy d2 \<and> same_second_equal d1 d2)"
  by (auto simp add: verify_date_field_def same_second_equal_def truthy_def
      split: option.splits)

text \<open>
  Two launch timestamps of the same second match although their microseconds differ;
  the amended statement decides it.
\<close>

theorem verify_date_field_same_second_witness:
  "verify_date_field (Some 1356998400123456) (Some 1356998400000000) True
   \<and> \<not> verify_date_field (Some 1356998400123456) (Some 1356998401123456) True"
  using verify_date_field_same_second [of "Some 1356998400123456" "Some 1356998400000000"]
    verify_date_field_same_second [of "Some 1356998400123456" "Some 1356998401123456"]
  by (simp add: truthy_def same_second_equal_def py_int_def)

text \<open>
  Claim C7, as stated: the field comparison reports the first field that differs, with
  launched-at compared same-second tolerant. It fails where a launched-at is the decimal
  zero: the snapshot launched at 0.5 s and the launch record dated 0 s lie in the same
  second, so the first field that differs is the tenant; but the guard of
  \<^verbatim>\<open>_verify_date_field\<close> takes the zero for an absent value and the comparison reports
  launched-at. The fast path reaches this comparison, since the record lies in the
  snapshot's launch window.
\<close>

theorem verify_field_mismatch_zero_counterexample:
  "first_mismatch (field_checks same_second_equal epoch_exist epoch_usage) =
     Inl (FieldMismatch ''tenant'' (PyStr ''tenant-a'') (PyStr ''tenant-b''))
   \<and> verify_field_mismatch epoch_exist epoch_usage =
       Inl (FieldMismatch ''launched_at'' (PyDecimal 500000) (PyDecimal 0))
   \<and> fast_path (store [epoch_usage] [] []) epoch_exist =
       Inl (FieldMismatch ''launched_at'' (PyDecimal 500000) (PyDecimal 0))"
  by (simp add: first_mismatch_def field_checks_def same_second_equal_def sample_defs
      engine_defs finder_defs matcher_defs)

text \<open>
  Claim C7, amended: the field comparison checks launched-at (same-second tolerant, where
  a launched-at that is absent or exactly zero on either side counts as a difference),
  instance-type identifier, tenant, provider options, OS architecture, OS version and OS
  distro in this order and reports exactly the first field that differs, with the
  snapshot's value as the expected and the candidate's as the actual one. It reports one
  field only, and it is a function of its two arguments: it reads no store and changes
  nothing.
\<close>

theorem verify_field_mismatch_first:
  "verify_field_mismatch exist launch =
     first_mismatch
       (field_checks (\<lambda>a b. truthy a \<and> truthy b \<and> same_second_equal a b) exist launch)"
proof -
  have "verify_date_field (u_launched_at launch) (e_launched_at exist) True =
          (truthy (u_launched_at launch) \<and> truthy (e_launched_at exist)
           \<and> same_second_equal (u_launched_at launch) (e_launched_at exist))"
    by (auto simp add: verify_date_field_def same_second_equal_def truthy_def
        split: option.splits)
  then show ?thesis
    by (simp add: verify_field_mismatch_def first_mismatch_def field_checks_def)
qed

text \<open>
  A candidate that differs from the snapshot in its tenant and in its OS version: only
  the tenant, the earlier of the two, is reported. A candidate dated zero differs in its
  launched-at before anything else.
\<close>

theorem verify_field_mismatch_first_witness:
  "verify_field_mismatch sample_exist
     (sample_usage\<lparr>u_tenant := Some ''tenant-b'', u_os_version := Some ''13.04''\<rparr>) =
     Inl (FieldMismatch ''tenant'' (PyStr ''tenant-a'') (PyStr ''tenant-b''))
   \<and> verify_field_mismatch epoch_exist epoch_usage =
       Inl (FieldMismatch ''launched_at'' (PyDecimal 500000) (PyDecimal 0))"
  using verify_field_mismatch_first [of sample_exist
      "sample_usage\<lparr>u_tenant := Some ''tenant-b'', u_os_version := Some ''13.04''\<rparr>"]
    verify_field_mismatch_first [of epoch_exist epoch_usage]
  by (simp add: first_mismatch_def field_checks_def same_second_equal_def truthy_def
      py_int_def dec_val_def str_val_def sample_defs)

section \<open>Finder\<close>

text \<open>
  The window of a finder, from the start of the launch timestamp's second to 999999
  microseconds later, holds exactly the timestamps of that second.
\<close>

lemma same_quotient:
  fixes l t k :: int
  assumes "0 < k"
  shows "(t - t mod k \<le> l \<and> l \<le> t - t mod k + (k - 1)) = (l div k = t div k)"
proof
  assume b: "t - t mod k \<le> l \<and> l \<le> t - t mod k + (k - 1)"
  have e: "t - t mod k = k * (t div k)" by (rule minus_mod_eq_mult_div)
  have "l = k * (t div k) + (l - k * (t div k))" by simp
  moreover have "0 \<le> l - k * (t div k)" using b e by simp
  moreover have "l - k * (t div k) < k" using b e by simp
  ultimately show "l div k = t div k" by (rule int_div_pos_eq)
next
  assume q: "l div k = t div k"
  have e: "t - t mod k = k * (l div k)" using q by (simp add: minus_mod_eq_mult_div)
  have "l = k * (l div k) + l mod k" by simp
  moreover have "0 \<le> l mod k" and "l mod k < k" using assms by simp_all
  ultimately show "t - t mod k \<le> l \<and> l \<le> t - t mod k + (k - 1)"
    using e by linarith
qed

lemma window_same_second:
  "(gte col (dt_to_decimal (window_start launched))
      \<and> lte col (dt_to_decimal (window_end launched)))
     = in_launch_window launched col"
proof (cases col)
  case None
  then show ?thesis by (simp add: gte_def lte_def in_launch_window_def)
next
  case (Some l)
  have "(launched - launched mod 1000000 \<le> l \<and> l \<le> launched - launched mod 1000000 + 999999)
          = (l div 1000000 = launched div 1000000)"
    using same_quotient [of 1000000 launched l] by simp
  with Some show ?thesis
    by (simp add: gte_def lte_def in_launch_window_def dt_to_decimal_def window_start_def
        window_end_def)
qed

lemma find_delete_bounded:
  "find_delete s (e_instance exist) launched (Some (e_audit_period_ending exist))
     = contradicting_deletes s exist launched"
  unfolding find_delete_def contradicting_deletes_def
  by (rule filter_cong)
     (auto simp: window_same_second [symmetric] lte_def dt_to_decimal_def
        split: option.splits)

text \<open>
  What \<open>find_delete\<close> returns under a bound: the delete records of the instance in the
  launch window whose deletion time is at or before the bound.
\<close>

lemma find_delete_bounded_iff:
  "d \<in> set (find_delete s inst launched (Some deleted_max)) \<longleftrightarrow>
     d \<in> set (deletes s) \<and> d_instance d = inst
     \<and> in_launch_window launched (d_launched_at d)
     \<and> (\<exists>t. d_deleted_at d = Some t \<and> t \<le> deleted_max)"
  by (auto simp: find_delete_def window_same_second [symmetric] lte_def dt_to_decimal_def
      split: option.splits)

text \<open>
  Claim C6 says that, with a bound, \<open>find_delete\<close> returns only delete records deleted
  strictly before the bound, and that a record deleted exactly at the bound is excluded.
  The comment in \<^verbatim>\<open>_verify_for_delete\<close> says the same of its search: it is restricted
  ``to only deletes before this exist's audit period ended''. The query filters with
  \<^verbatim>\<open>deleted_at__lte\<close>: the record deleted exactly at the end of the sample snapshot's
  audit period is returned, and delete verification fails the snapshot for it.
\<close>

theorem find_delete_includes_bound:
  "e_audit_period_ending sample_exist = 1357002000000000
   \<and> d_deleted_at boundary_delete = Some 1357002000000000
   \<and> find_delete (store [sample_usage] [boundary_delete] []) ''inst-1'' 1356998400123456
        (Some 1357002000000000) = [boundary_delete]
   \<and> verify_for_delete (store [sample_usage] [boundary_delete] []) sample_exist None
        ''InstanceDelete'' =
       Inl (VerificationException ''Found InstanceDeletes for non-delete exist'')"
  by (simp add: sample_defs engine_defs finder_defs matcher_defs)

section \<open>Lookups and their cardinality\<close>

text \<open>
  The launch lookup, for a snapshot with no launch record attached: no record in the
  window raises \<^verbatim>\<open>NotFound\<close>, exactly one is the match, several raise
  \<^verbatim>\<open>AmbiguousResults\<close>.
\<close>

lemma resolve_launch_cardinality:
  assumes "e_usage exist = None" and "e_launched_at exist = Some launched"
  shows "resolve_launch s exist None launch_type =
           (case find_launch s (e_instance exist) launched of
              [] \<Rightarrow>
                Inl (NotFound launch_type
                       (if filter (\<lambda>u. u_instance u = e_instance exist) (usages s) = []
                        then instance_query exist else launched_query exist))
            | [l] \<Rightarrow> Inr l
            | l # l' # ls \<Rightarrow> Inl (AmbiguousResults launch_type (launched_query exist)))"
proof (cases "filter (\<lambda>u. u_instance u = e_instance exist) (usages s) = []")
  case True
  then have "find_launch s (e_instance exist) launched = []"
    by (simp add: find_launch_def filter_empty_conv)
  with True assms show ?thesis by (simp add: resolve_launch_def)
next
  case False
  with assms show ?thesis
    by (simp add: resolve_launch_def dt_from_decimal_def Let_def
        split: list.splits)
qed

text \<open>The reconcile lookup follows the same three cases.\<close>

lemma resolve_reconcile_cardinality:
  assumes "e_launched_at exist = Some launched"
  shows "resolve_reconcile s exist =
           (case find_reconcile s (e_instance exist) launched of
              [] \<Rightarrow>
                Inl (NotFound ''InstanceReconcile''
                       (if filter (\<lambda>r. r_instance r = e_instance exist) (reconciles s) = []
                        then instance_query exist else launched_query exist))
            | [r] \<Rightarrow> Inr r
            | r # r' # rs \<Rightarrow>
                Inl (AmbiguousResults ''InstanceReconcile'' (launched_query exist)))"
proof (cases "filter (\<lambda>r. r_instance r = e_instance exist) (reconciles s) = []")
  case True
  then have "find_reconcile s (e_instance exist) launched = []"
    by (simp add: find_reconcile_def filter_empty_conv)
  with True assms show ?thesis by (simp add: resolve_reconcile_def)
next
  case False
  with assms show ?thesis
    by (simp add: resolve_reconcile_def dt_from_decimal_def Let_def
        split: list.splits)
qed

text \<open>
  The delete lookup of a snapshot with a deleted-at has two cases only: exactly one
  record in the window is the match, any other number raises \<^verbatim>\<open>NotFound\<close>.
\<close>

lemma resolve_delete_cardinality:
  assumes "e_delete exist = None" and "truthy (e_deleted_at exist)"
    and "e_launched_at exist = Some launched"
  shows "resolve_delete s exist None delete_type =
           (case find_delete s (e_instance exist) launched None of
              [d] \<Rightarrow> Inr (Some d)
            | ds \<Rightarrow> Inl (NotFound delete_type (launched_query exist)))"
  using assms
  by (simp add: resolve_delete_def dt_from_decimal_def Let_def split: list.splits)

text \<open>
  Claim C3 says that every required lookup (launch, delete for a snapshot with a
  deleted-at, reconcile) answers no candidate with \<^verbatim>\<open>NotFound\<close>, one candidate with
  the match and several candidates with \<^verbatim>\<open>AmbiguousResults\<close>. The launch and the
  reconcile lookup do, the delete lookup does not: for the deleted sample snapshot and
  two delete records in its launch window, delete verification raises \<^verbatim>\<open>NotFound\<close>.
\<close>

theorem ambiguous_delete_reported_not_found:
  "length (find_delete two_deletes_store ''inst-1'' 1356998400123456 None) = 2
   \<and> verify_for_delete two_deletes_store sample_deleted_exist None ''InstanceDelete'' =
       Inl (NotFound ''InstanceDelete''
              [(''instance'', PyStr ''inst-1''), (''launched_at'', PyDecimal 1356998400123456)])"
  by (simp add: sample_defs engine_defs finder_defs matcher_defs)

text \<open>Two launch records in the window, by contrast, are reported as ambiguous.\<close>

lemma ambiguous_launch_reported:
  "verify_for_launch (store [sample_usage, sample_usage] [] []) sample_exist None
     ''InstanceUsage'' =
     Inl (AmbiguousResults ''InstanceUsage''
            [(''instance'', PyStr ''inst-1''), (''launched_at'', PyDecimal 1356998400123456)])"
  by (simp add: sample_defs engine_defs finder_defs matcher_defs)

section \<open>Delete verification\<close>

text \<open>
  Claim C5: for a snapshot with no deleted-at value and no delete record attached,
  fast-path delete verification looks for the delete records of the same instance in the
  launch window that were deleted at or before the end of the snapshot's audit period,
  and it raises a verification failure if and only if there is at least one.
\<close>

theorem verify_for_delete_no_delete_contradiction:
  assumes "e_deleted_at exist = None" and "e_delete exist = None"
    and "e_launched_at exist = Some launched"
  shows "verify_for_delete s exist None delete_type =
           (if contradicting_deletes s exist launched \<noteq> [] then
              Inl (VerificationException (''Found '' @ delete_type @ ''s for non-delete exist''))
            else Inr ())"
  using assms
  by (simp add: verify_for_delete_def resolve_delete_def truthy_def dt_from_decimal_def
      find_delete_bounded Let_def)

text \<open>
  The sample snapshot claims no deletion, yet the instance was deleted within its audit
  period: delete verification fails.
\<close>

theorem verify_for_delete_no_delete_contradiction_witness:
  "e_deleted_at sample_exist = None \<and> e_delete sample_exist = None
   \<and> contradicting_deletes (store [sample_usage] [sample_delete] []) sample_exist
        1356998400123456 = [sample_delete]
   \<and> verify_for_delete (store [sample_usage] [sample_delete] []) sample_exist None
        ''InstanceDelete'' =
       Inl (VerificationException ''Found InstanceDeletes for non-delete exist'')"
proof -
  have a: "e_deleted_at sample_exist = None" and b: "e_delete sample_exist = None"
    and c: "e_launched_at sample_exist = Some 1356998400123456"
    by (simp_all add: sample_defs)
  have d: "contradicting_deletes (store [sample_usage] [sample_delete] []) sample_exist
        1356998400123456 = [sample_delete]"
    by (simp add: contradicting_deletes_def in_launch_window_def sample_defs)
  from a b d
    verify_for_delete_no_delete_contradiction [OF a b c,
      of "store [sample_usage] [sample_delete] []" "''InstanceDelete''"]
  show ?thesis by simp
qed

section \<open>The verification of one snapshot\<close>

lemma mark_exist_verified_result:
  "mark_exist_verified s exist False None
     = (exist\<lparr>e_status := VERIFIED\<rparr>, save s (exist\<lparr>e_status := VERIFIED\<rparr>))"
  by (simp add: mark_exist_verified_def Let_def)

lemma mark_exist_failed_status:
  "\<exists>exist'. mark_exist_failed s exist reason = (exist', save s exist')
        \<and> e_status exist' = FAILED \<and> e_id exist' = e_id exist"
  by (auto simp: mark_exist_failed_def Let_def split: option.splits)

text \<open>
  Whatever the second pass raises or returns, \<open>attempt_reconciled_verify\<close> saves the
  snapshot as \<open>VERIFIED\<close> or as \<open>FAILED\<close>.
\<close>

lemma attempt_reconciled_verify_terminal:
  "\<exists>verified exist'.
      attempt_reconciled_verify str s exist orig_e = (verified, exist', save s exist')
    \<and> e_status exist' \<in> {VERIFIED, FAILED} \<and> e_id exist' = e_id exist"
proof (cases "verify_with_reconciled_data s exist orig_e")
  case (Inl rec_e)
  then show ?thesis
    using mark_exist_failed_status [of s exist "Some (str orig_e)"]
      mark_exist_failed_status [of s exist "Some (str rec_e)"]
      mark_exist_failed_status [of s exist "Some (class_name rec_e)"]
    by (auto simp: attempt_reconciled_verify_def)
next
  case (Inr u)
  then show ?thesis
    by (auto simp: attempt_reconciled_verify_def mark_exist_verified_result)
qed

text \<open>
  A second pass that succeeds is marked by \<^verbatim>\<open>_mark_exist_verified(exist)\<close> with the
  default \<^verbatim>\<open>reconciled=False\<close>: the snapshot becomes \<open>VERIFIED\<close> and its fail reason is
  left as it was.
\<close>

lemma reconciled_success_status:
  assumes "fast_path s exist = Inl orig_e" and "is_VerificationException orig_e"
    and "verify_with_reconciled_data s exist orig_e = Inr ()"
  shows "verify str s exist =
           ((True, exist\<lparr>e_status := VERIFIED\<rparr>), save s (exist\<lparr>e_status := VERIFIED\<rparr>))"
  using assms
  by (simp add: verify_def attempt_reconciled_verify_def mark_exist_verified_result)

text \<open>No call of \<open>verify\<close> leaves a snapshot in the status \<open>RECONCILED\<close>.\<close>

lemma verify_never_reconciled:
  "e_status (snd (fst (verify str s exist))) \<noteq> RECONCILED"
proof (cases "fast_path s exist")
  case (Inr u)
  then show ?thesis by (simp add: verify_def mark_exist_verified_result)
next
  case (Inl e)
  obtain verified exist' where
    a: "attempt_reconciled_verify str s exist e = (verified, exist', save s exist')"
    and st: "e_status exist' \<in> {VERIFIED, FAILED}"
    using attempt_reconciled_verify_terminal by blast
  obtain exist'' where
    m: "mark_exist_failed s exist (Some (class_name e)) = (exist'', save s exist'')"
    and st': "e_status exist'' = FAILED"
    using mark_exist_failed_status by blast
  from Inl a st m st' show ?thesis
    by (cases "is_VerificationException e") (auto simp: verify_def)
qed

lemma sample_fast_path_tenant:
  "fast_path tenant_mismatch_store sample_deleted_exist =
     Inl (FieldMismatch ''tenant'' (PyStr ''tenant-a'') (PyStr ''tenant-b''))"
  by (simp add: sample_defs engine_defs finder_defs matcher_defs)

lemma sample_reconciled_pass:
  "verify_with_reconciled_data tenant_mismatch_store sample_deleted_exist e = Inr ()"
  by (simp add: sample_defs engine_defs finder_defs matcher_defs)

text \<open>
  Claim C1 says that a snapshot whose fast path fails with a verification-level condition
  and whose single reconcile record agrees on every compared field ends with the flag
  true, the status \<open>RECONCILED\<close> and the original failure's text as its fail reason. For
  the deleted sample snapshot in the store whose launch record names another tenant, the
  fast path raises the tenant mismatch, the one reconcile record of the window agrees, and
  the call returns the flag true; but the snapshot is left as \<open>VERIFIED\<close> with no fail
  reason, whatever the text of the exception.
\<close>

theorem reconciled_success_marked_verified:
  "fast_path tenant_mismatch_store sample_deleted_exist =
     Inl (FieldMismatch ''tenant'' (PyStr ''tenant-a'') (PyStr ''tenant-b''))
   \<and> length (find_reconcile tenant_mismatch_store ''inst-1'' 1356998400123456) = 1
   \<and> fst (verify str tenant_mismatch_store sample_deleted_exist) =
       (True, sample_deleted_exist\<lparr>e_status := VERIFIED\<rparr>)
   \<and> e_fail_reason (snd (fst (verify str tenant_mismatch_store sample_deleted_exist))) = None"
proof -
  have v: "verify str tenant_mismatch_store sample_deleted_exist =
      ((True, sample_deleted_exist\<lparr>e_status := VERIFIED\<rparr>),
       save tenant_mismatch_store (sample_deleted_exist\<lparr>e_status := VERIFIED\<rparr>))"
    by (rule reconciled_success_status [OF sample_fast_path_tenant _ sample_reconciled_pass])
       simp
  have n: "length (find_reconcile tenant_mismatch_store ''inst-1'' 1356998400123456) = 1"
    by (simp add: sample_defs finder_defs)
  have r: "e_fail_reason (sample_deleted_exist\<lparr>e_status := VERIFIED\<rparr>) = None"
    by (simp add: sample_defs)
  from v n r sample_fast_path_tenant show ?thesis by simp
qed

text \<open>
  A snapshot without a deleted-at cannot pass the second pass at all: the reconcile
  record is handed to delete verification as the delete record, and the same-second
  comparison of two absent deleted-at values reports a mismatch.
\<close>

lemma no_deleted_at_never_reconciles:
  "fst (verify sample_str
          (store [sample_usage\<lparr>u_tenant := Some ''tenant-b''\<rparr>] []
             [sample_reconcile\<lparr>r_deleted_at := None\<rparr>])
          sample_exist) =
     (False, sample_exist\<lparr>e_status := FAILED, e_fail_reason := Some ''Mismatch of deleted_at''\<rparr>)"
  by (simp add: verify_def attempt_reconciled_verify_def mark_exist_failed_def Let_def
      sample_defs engine_defs finder_defs matcher_defs)

text \<open>
  Claim C4: when the fast path raises a verification-level exception and the second pass
  fails as well, the snapshot is marked \<open>FAILED\<close> and the flag is false. The fail reason
  is the text of the fast path's exception if the second pass raised \<^verbatim>\<open>NotFound\<close>,
  and the text of the second pass's exception if it raised any other verification-level
  exception. (\<^verbatim>\<open>_mark_exist_failed\<close> stores a reason only if it is not the empty
  text.)
\<close>

theorem fallback_failure_reason:
  assumes "fast_path s exist = Inl orig_e" and "is_VerificationException orig_e"
    and "verify_with_reconciled_data s exist orig_e = Inl rec_e"
    and "is_VerificationException rec_e"
    and "reason = (if is_NotFound rec_e then str orig_e else str rec_e)"
    and "reason \<noteq> []"
  shows "verify str s exist =
           ((False, exist\<lparr>e_status := FAILED, e_fail_reason := Some reason\<rparr>),
            save s (exist\<lparr>e_status := FAILED, e_fail_reason := Some reason\<rparr>))"
  using assms
  by (cases "is_NotFound rec_e")
     (simp_all add: verify_def attempt_reconciled_verify_def mark_exist_failed_def Let_def)

text \<open>
  The launch record names another tenant and there is no reconcile record: the second
  pass raises \<^verbatim>\<open>NotFound\<close>, and the snapshot fails with the text of the tenant
  mismatch.
\<close>

theorem fallback_failure_reason_witness:
  "fst (verify sample_str (store [sample_usage\<lparr>u_tenant := Some ''tenant-b''\<rparr>] [] [])
          sample_exist) =
     (False, sample_exist\<lparr>e_status := FAILED, e_fail_reason := Some ''Mismatch of tenant''\<rparr>)"
proof -
  let ?s = "store [sample_usage\<lparr>u_tenant := Some ''tenant-b''\<rparr>] [] []"
  let ?orig = "FieldMismatch ''tenant'' (PyStr ''tenant-a'') (PyStr ''tenant-b'')"
  let ?rec = "NotFound ''InstanceReconcile'' [(''instance'', PyStr ''inst-1'')]"
  have f: "fast_path ?s sample_exist = Inl ?orig"
    by (simp add: sample_defs engine_defs finder_defs matcher_defs)
  have r: "verify_with_reconciled_data ?s sample_exist ?orig = Inl ?rec"
    by (simp add: sample_defs engine_defs finder_defs matcher_defs)
  have "verify sample_str ?s sample_exist =
          ((False, sample_exist\<lparr>e_status := FAILED, e_fail_reason := Some ''Mismatch of tenant''\<rparr>),
           save ?s (sample_exist\<lparr>e_status := FAILED, e_fail_reason := Some ''Mismatch of tenant''\<rparr>))"
    by (rule fallback_failure_reason [OF f _ r]) simp_all
  then show ?thesis by simp
qed

section \<open>The verification of one snapshot against a store that can fail\<close>

text \<open>
  With no query and no save failing, \<open>verify_io\<close> does what \<open>verify\<close> does.
\<close>

lemma query_no_fault: "query r [] = (Inr r, [])"
  by (simp add: query_def)

lemma resolve_launch_io_no_fault:
  "resolve_launch_io s exist launch ty [] = (resolve_launch s exist launch ty, [])"
  by (simp add: resolve_launch_io_def resolve_launch_def bind_r_def query_no_fault return_r_def
      raise_r_def Let_def split: option.splits sum.splits)

lemma verify_for_launch_io_no_fault:
  "verify_for_launch_io s exist launch ty [] = (verify_for_launch s exist launch ty, [])"
  by (simp add: verify_for_launch_io_def verify_for_launch_def bind_r_def
      resolve_launch_io_no_fault return_r_def raise_r_def split: sum.splits)

lemma resolve_delete_io_no_fault:
  "resolve_delete_io s exist delete ty [] = (resolve_delete s exist delete ty, [])"
  by (simp add: resolve_delete_io_def resolve_delete_def bind_r_def query_no_fault return_r_def
      raise_r_def Let_def split: option.splits sum.splits)

lemma verify_for_delete_io_no_fault:
  "verify_for_delete_io s exist delete ty [] = (verify_for_delete s exist delete ty, [])"
  by (simp add: verify_for_delete_io_def verify_for_delete_def bind_r_def
      resolve_delete_io_no_fault return_r_def raise_r_def split: sum.splits option.splits)

lemma resolve_reconcile_io_no_fault:
  "resolve_reconcile_io s exist [] = (resolve_reconcile s exist, [])"
  by (simp add: resolve_reconcile_io_def resolve_reconcile_def bind_r_def query_no_fault
      return_r_def raise_r_def Let_def split: option.splits sum.splits)

lemma verify_with_reconciled_data_io_no_fault:
  "verify_with_reconciled_data_io s exist ex [] = (verify_with_reconciled_data s exist ex, [])"
  by (simp add: verify_with_reconciled_data_io_def verify_with_reconciled_data_def bind_r_def
      resolve_reconcile_io_no_fault verify_for_launch_io_no_fault
      verify_for_delete_io_no_fault raise_r_def split: sum.splits)

lemma fast_path_io_no_fault:
  "fast_path_io s exist [] = (fast_path s exist, [])"
  by (simp add: fast_path_io_def fast_path_def bind_r_def verify_for_launch_io_no_fault
      verify_for_delete_io_no_fault raise_r_def split: sum.splits)

lemma verify_io_no_fault:
  "verify_io str \<lparr>w_exist = exist, w_db = s, w_read_faults = [], w_write_faults = []\<rparr> =
     (Inr (fst (fst (verify str s exist))),
      \<lparr>w_exist = snd (fst (verify str s exist)), w_db = snd (verify str s exist),
       w_read_faults = [], w_write_faults = []\<rparr>)"
  by (simp add: verify_io_def verify_def fast_path_io_no_fault verify_handlers_def
      attempt_reconciled_verify_io_def attempt_reconciled_verify_def
      verify_with_reconciled_data_io_no_fault reconciled_handlers_def
      mark_exist_failed_io_def mark_exist_failed_def mark_exist_verified_io_def
      mark_exist_verified_def save_io_def Let_def split: sum.splits)

text \<open>
  A save that succeeds writes the snapshot object to its row and leaves only successes
  ahead, if there were only successes before.
\<close>

lemma save_io_succeeds:
  assumes "list_all (\<lambda>f. f = None) (w_write_faults w)"
  shows "\<exists>w'. save_io w = (Inr (), w') \<and> w_exist w' = w_exist w
            \<and> w_db w' = save (w_db w) (w_exist w)
            \<and> list_all (\<lambda>f. f = None) (w_write_faults w')"
proof (cases "w_write_faults w")
  case Nil
  with assms show ?thesis by (simp add: save_io_def)
next
  case (Cons f fs)
  with assms show ?thesis by (simp add: save_io_def)
qed

lemma mark_exist_failed_io_succeeds:
  assumes "list_all (\<lambda>f. f = None) (w_write_faults w)"
  shows "\<exists>w'. mark_exist_failed_io reason w = (Inr (), w')
            \<and> e_status (w_exist w') = FAILED \<and> e_id (w_exist w') = e_id (w_exist w)
            \<and> w_db w' = save (w_db w) (w_exist w')
            \<and> list_all (\<lambda>f. f = None) (w_write_faults w')"
proof -
  define x where "x = (case reason of
          None \<Rightarrow> (w_exist w)\<lparr>e_status := FAILED\<rparr>
        | Some r \<Rightarrow>
            if r \<noteq> [] then (w_exist w)\<lparr>e_status := FAILED, e_fail_reason := Some r\<rparr>
            else (w_exist w)\<lparr>e_status := FAILED\<rparr>)"
  have x: "e_status x = FAILED" "e_id x = e_id (w_exist w)"
    by (simp_all add: x_def split: option.splits)
  have m: "mark_exist_failed_io reason w = save_io (w\<lparr>w_exist := x\<rparr>)"
    by (simp add: mark_exist_failed_io_def x_def)
  from assms have "list_all (\<lambda>f. f = None) (w_write_faults (w\<lparr>w_exist := x\<rparr>))" by simp
  from save_io_succeeds [OF this] x m show ?thesis by auto
qed

lemma mark_exist_verified_io_succeeds:
  assumes "list_all (\<lambda>f. f = None) (w_write_faults w)"
  shows "\<exists>w'. mark_exist_verified_io False None w = (Inr (), w')
            \<and> e_status (w_exist w') = VERIFIED \<and> e_id (w_exist w') = e_id (w_exist w)
            \<and> w_db w' = save (w_db w) (w_exist w')
            \<and> list_all (\<lambda>f. f = None) (w_write_faults w')"
proof -
  have m: "mark_exist_verified_io False None w =
             save_io (w\<lparr>w_exist := (w_exist w)\<lparr>e_status := VERIFIED\<rparr>\<rparr>)"
    by (simp add: mark_exist_verified_io_def)
  from assms have "list_all (\<lambda>f. f = None)
      (w_write_faults (w\<lparr>w_exist := (w_exist w)\<lparr>e_status := VERIFIED\<rparr>\<rparr>))" by simp
  from save_io_succeeds [OF this] m show ?thesis by auto
qed

lemma reconciled_handlers_terminal:
  assumes "list_all (\<lambda>f. f = None) (w_write_faults w)"
  shows "\<exists>w'. reconciled_handlers str orig_e verified rec_e w = (Inr verified, w')
            \<and> e_status (w_exist w') = FAILED \<and> e_id (w_exist w') = e_id (w_exist w)
            \<and> w_db w' = save (w_db w) (w_exist w')"
  using mark_exist_failed_io_succeeds [OF assms,
      of "Some (if is_NotFound rec_e then str orig_e
                else if is_VerificationException rec_e then str rec_e
                else class_name rec_e)"]
  by (auto simp: reconciled_handlers_def)

lemma attempt_reconciled_verify_io_terminal:
  assumes "list_all (\<lambda>f. f = None) (w_write_faults w)"
  shows "\<exists>verified w'. attempt_reconciled_verify_io str orig_e w = (Inr verified, w')
            \<and> e_status (w_exist w') \<in> {VERIFIED, FAILED}
            \<and> e_id (w_exist w') = e_id (w_exist w)
            \<and> w_db w' = save (w_db w) (w_exist w')"
proof -
  obtain r fs where
    p: "verify_with_reconciled_data_io (w_db w) (w_exist w) orig_e (w_read_faults w) = (r, fs)"
    by (cases "verify_with_reconciled_data_io (w_db w) (w_exist w) orig_e (w_read_faults w)")
  from assms have a: "list_all (\<lambda>f. f = None) (w_write_faults (w\<lparr>w_read_faults := fs\<rparr>))"
    by simp
  show ?thesis
  proof (cases r)
    case (Inl rec_e)
    with p reconciled_handlers_terminal [OF a, of str orig_e False rec_e] show ?thesis
      by (auto simp: attempt_reconciled_verify_io_def)
  next
    case (Inr u)
    with p mark_exist_verified_io_succeeds [OF a] show ?thesis
      by (auto simp: attempt_reconciled_verify_io_def)
  qed
qed

lemma verify_handlers_terminal:
  assumes "list_all (\<lambda>f. f = None) (w_write_faults w)"
  shows "\<exists>v w'. verify_handlers str verified e w = (Inr v, w')
            \<and> e_status (w_exist w') \<in> {VERIFIED, FAILED}
            \<and> e_id (w_exist w') = e_id (w_exist w)
            \<and> w_db w' = save (w_db w) (w_exist w')"
proof (cases "is_VerificationException e")
  case True
  with attempt_reconciled_verify_io_terminal [OF assms, of str e] show ?thesis
    by (simp add: verify_handlers_def)
next
  case False
  with mark_exist_failed_io_succeeds [OF assms, of "Some (class_name e)"] show ?thesis
    by (auto simp: verify_handlers_def)
qed

text \<open>
  Claim C2, as stated: one call of \<^verbatim>\<open>_verify\<close> never propagates an exception and
  always leaves the snapshot saved in a terminal status. It fails when the store refuses
  the saves: the sample snapshot passes the fast path, the save of
  \<^verbatim>\<open>_mark_exist_verified\<close> raises, the clause \<^verbatim>\<open>except Exception\<close> calls
  \<^verbatim>\<open>_mark_exist_failed\<close>, whose save raises as well, inside the clause. That exception
  leaves \<^verbatim>\<open>_verify\<close>, and the stored row is still \<open>VERIFYING\<close>.
\<close>

theorem verify_io_propagates_counterexample:
  "fst (verify_io sample_str (sample_world [] [Some ''DatabaseError'', Some ''DatabaseError'']))
     = Inl (OtherException ''DatabaseError'')
   \<and> exists_rows (w_db (snd (verify_io sample_str
        (sample_world [] [Some ''DatabaseError'', Some ''DatabaseError''])))) 1 = Some sample_exist
   \<and> e_status sample_exist = VERIFYING"
  by (simp add: sample_world_def sample_defs io_defs finder_defs matcher_defs
      launched_query_def instance_query_def save_def)

text \<open>
  Claim C2, amended: one call of \<^verbatim>\<open>_verify\<close> in which every save of the snapshot
  succeeds propagates no exception, whatever its queries raise: it returns the flag and
  the snapshot, the snapshot it returns is the one saved under the snapshot's key, and
  its status is one of the terminal \<open>VERIFIED\<close>, \<open>RECONCILED\<close> and \<open>FAILED\<close>, never
  \<open>PENDING\<close> or \<open>VERIFYING\<close>.
\<close>

theorem verify_io_terminal_status:
  assumes "list_all (\<lambda>f. f = None) (w_write_faults w)"
  shows "\<exists>verified w'.
           verify_io str w = (Inr verified, w')
         \<and> e_status (w_exist w') \<in> {VERIFIED, RECONCILED, FAILED}
         \<and> e_status (w_exist w') \<noteq> PENDING \<and> e_status (w_exist w') \<noteq> VERIFYING
         \<and> exists_rows (w_db w') (e_id (w_exist w)) = Some (w_exist w')"
proof -
  obtain r fs where p: "fast_path_io (w_db w) (w_exist w) (w_read_faults w) = (r, fs)"
    by (cases "fast_path_io (w_db w) (w_exist w) (w_read_faults w)")
  from assms have a: "list_all (\<lambda>f. f = None) (w_write_faults (w\<lparr>w_read_faults := fs\<rparr>))"
    by simp
  have "\<exists>verified w'. verify_io str w = (Inr verified, w')
            \<and> e_status (w_exist w') \<in> {VERIFIED, FAILED}
            \<and> e_id (w_exist w') = e_id (w_exist w)
            \<and> w_db w' = save (w_db w) (w_exist w')"
  proof (cases r)
    case (Inl e)
    with p verify_handlers_terminal [OF a, of str False e] show ?thesis
      by (auto simp: verify_io_def)
  next
    case (Inr u)
    with p mark_exist_verified_io_succeeds [OF a] show ?thesis
      by (auto simp: verify_io_def)
  qed
  then obtain verified w' where
    v: "verify_io str w = (Inr verified, w')"
    and st: "e_status (w_exist w') \<in> {VERIFIED, FAILED}"
    and i: "e_id (w_exist w') = e_id (w_exist w)"
    and d: "w_db w' = save (w_db w) (w_exist w')"
    by blast
  from d i have "exists_rows (w_db w') (e_id (w_exist w)) = Some (w_exist w')"
    by (simp add: save_def)
  with v st show ?thesis by auto
qed

text \<open>
  The store fails at the first query of the fast path: the clause \<^verbatim>\<open>except Exception\<close>
  of \<^verbatim>\<open>_verify\<close> marks the sample snapshot \<open>FAILED\<close> with the exception's class
  name, the flag is false, and the row saved under key 1 is that snapshot.
\<close>

theorem verify_io_terminal_status_witness:
  "fst (verify_io sample_str (sample_world [Some ''DatabaseError''] [])) = Inr False
   \<and> w_exist (snd (verify_io sample_str (sample_world [Some ''DatabaseError''] []))) =
       sample_exist\<lparr>e_status := FAILED, e_fail_reason := Some ''DatabaseError''\<rparr>
   \<and> exists_rows (w_db (snd (verify_io sample_str (sample_world [Some ''DatabaseError''] [])))) 1 =
       Some (sample_exist\<lparr>e_status := FAILED, e_fail_reason := Some ''DatabaseError''\<rparr>)"
proof -
  let ?w = "sample_world [Some ''DatabaseError''] []"
  have a: "list_all (\<lambda>f. f = None) (w_write_faults ?w)" by (simp add: sample_world_def)
  have i: "e_id (w_exist ?w) = 1" by (simp add: sample_world_def sample_defs)
  have f: "fst (verify_io sample_str ?w) = Inr False"
    by (simp add: sample_world_def sample_defs io_defs matcher_defs)
  have x: "w_exist (snd (verify_io sample_str ?w)) =
       sample_exist\<lparr>e_status := FAILED, e_fail_reason := Some ''DatabaseError''\<rparr>"
    by (simp add: sample_world_def sample_defs io_defs matcher_defs)
  from verify_io_terminal_status [OF a, of sample_str] obtain verified w' where
    v: "verify_io sample_str ?w = (Inr verified, w')"
    and p: "exists_rows (w_db w') (e_id (w_exist ?w)) = Some (w_exist w')"
    by blast
  from v p i f x show ?thesis by simp
qed

text \<open>
  An exception of the fast path outside the verification taxonomy marks the snapshot
  \<open>FAILED\<close> with its class name, when the save succeeds.
\<close>

lemma verify_io_unexpected:
  assumes "fast_path_io (w_db w) (w_exist w) (w_read_faults w) = (Inl e, fs)"
    and "\<not> is_VerificationException e" and "class_name e \<noteq> []"
    and "list_all (\<lambda>f. f = None) (w_write_faults w)"
  shows "\<exists>w'. verify_io str w = (Inr False, w')
           \<and> w_exist w' = (w_exist w)\<lparr>e_status := FAILED, e_fail_reason := Some (class_name e)\<rparr>
           \<and> w_db w' = save (w_db w) (w_exist w')"
proof -
  from assms(4) have a: "list_all (\<lambda>f. f = None) (w_write_faults
     (w\<lparr>w_read_faults := fs,
        w_exist := (w_exist w)\<lparr>e_status := FAILED, e_fail_reason := Some (class_name e)\<rparr>\<rparr>))"
    by simp
  from save_io_succeeds [OF a] assms(1,2,3) show ?thesis
    by (auto simp: verify_io_def verify_handlers_def mark_exist_failed_io_def)
qed

text \<open>
  When the save of \<^verbatim>\<open>_mark_exist_verified\<close> fails and the save of the clause
  succeeds, the call returns the flag true for a snapshot it has marked \<open>FAILED\<close>: the
  flag is set before the marking.
\<close>

lemma verify_io_flag_after_failed_save:
  "fst (verify_io sample_str (sample_world [] [Some ''DatabaseError''])) = Inr True
   \<and> e_status (w_exist (snd (verify_io sample_str (sample_world [] [Some ''DatabaseError''])))) = FAILED"
  by (simp add: sample_world_def sample_defs io_defs finder_defs matcher_defs
      launched_query_def instance_query_def save_def)

section \<open>Notification and exchange\<close>

lemma published_fold:
  "published (fold (\<lambda>key c. send_notification body key c exchange) keys conn)
     = published conn @ map (\<lambda>k. (k, body)) keys"
  by (induction keys arbitrary: conn) (simp_all add: send_notification_def)

text \<open>
  Claim C9: for a verified snapshot whose raw message carries a message id, the
  notification step publishes one message per configured routing key, in their order, or
  a single message under the raw message's own routing key when no keys are configured.
  Every message has the same body: the raw payload with the event type set to
  \<^verbatim>\<open>compute.instance.exists.verified.old\<close>, \<^verbatim>\<open>original_message_id\<close> set to the prior
  message id and \<^verbatim>\<open>message_id\<close> set to the generated identifier; every other field is
  the raw payload's.
\<close>

theorem send_verified_notification_publishes:
  assumes "raw_payload (e_raw exist) ''message_id'' = Some mid"
  shows "\<exists>conn' body.
           send_verified_notification new_id exist conn exchange keys = Inr conn'
         \<and> published conn' = published conn @
              map (\<lambda>k. (k, body))
                (case keys of None \<Rightarrow> [raw_routing_key (e_raw exist)] | Some ks \<Rightarrow> ks)
         \<and> body ''event_type'' = Some (JStr ''compute.instance.exists.verified.old'')
         \<and> body ''original_message_id'' = Some mid
         \<and> body ''message_id'' = Some (JStr new_id)
         \<and> (\<forall>k. k \<notin> {''event_type'', ''original_message_id'', ''message_id''}
                \<longrightarrow> body k = raw_payload (e_raw exist) k)"
proof -
  define body where
    "body = (raw_payload (e_raw exist))
              (''event_type'' \<mapsto> JStr ''compute.instance.exists.verified.old'',
               ''original_message_id'' \<mapsto> mid, ''message_id'' \<mapsto> JStr new_id)"
  have vb: "verified_body new_id (raw_payload (e_raw exist)) = Inr body"
    using assms by (simp add: verified_body_def body_def)
  have sent: "send_verified_notification new_id exist conn exchange keys =
      Inr (case keys of
             None \<Rightarrow> send_notification body (raw_routing_key (e_raw exist)) conn exchange
           | Some ks \<Rightarrow> fold (\<lambda>key c. send_notification body key c exchange) ks conn)"
    by (simp add: send_verified_notification_def vb split: option.splits)
  have pub: "published (case keys of
             None \<Rightarrow> send_notification body (raw_routing_key (e_raw exist)) conn exchange
           | Some ks \<Rightarrow> fold (\<lambda>key c. send_notification body key c exchange) ks conn)
       = published conn @ map (\<lambda>k. (k, body))
           (case keys of None \<Rightarrow> [raw_routing_key (e_raw exist)] | Some ks \<Rightarrow> ks)"
  proof (cases keys)
    case None
    then show ?thesis by (simp add: send_notification_def)
  next
    case (Some ks)
    then show ?thesis by (simp add: published_fold)
  qed
  have f1: "body ''event_type'' = Some (JStr ''compute.instance.exists.verified.old'')"
    and f2: "body ''original_message_id'' = Some mid"
    and f3: "body ''message_id'' = Some (JStr new_id)"
    by (simp_all add: body_def)
  have frame: "\<forall>k. k \<notin> {''event_type'', ''original_message_id'', ''message_id''}
                \<longrightarrow> body k = raw_payload (e_raw exist) k"
    by (simp add: body_def)
  from sent pub f1 f2 f3 frame show ?thesis by blast
qed

text \<open>
  With two routing keys configured the sample snapshot's notification goes out twice,
  each time with the prior message id kept and the priority field untouched.
\<close>

theorem send_verified_notification_publishes_witness:
  "\<exists>conn'. send_verified_notification ''uuid-2'' sample_exist sample_connection
              (create_exchange ''stacktach'' ''topic'' False False True)
              (Some [''monitor.info'', ''monitor.verified'']) = Inr conn'
          \<and> map fst (published conn') = [''monitor.info'', ''monitor.verified'']
          \<and> map (\<lambda>m. snd m ''original_message_id'') (published conn') =
              [Some (JStr ''msg-1''), Some (JStr ''msg-1'')]
          \<and> map (\<lambda>m. snd m ''priority'') (published conn') =
              [Some (JStr ''INFO''), Some (JStr ''INFO'')]"
proof -
  have m: "raw_payload (e_raw sample_exist) ''message_id'' = Some (JStr ''msg-1'')"
    by (simp add: sample_defs)
  have p: "raw_payload (e_raw sample_exist) ''priority'' = Some (JStr ''INFO'')"
    by (simp add: sample_defs)
  from send_verified_notification_publishes [OF m, of "''uuid-2''" sample_connection
      "create_exchange ''stacktach'' ''topic'' False False True"
      "Some [''monitor.info'', ''monitor.verified'']"]
  obtain conn' body where
    s: "send_verified_notification ''uuid-2'' sample_exist sample_connection
              (create_exchange ''stacktach'' ''topic'' False False True)
              (Some [''monitor.info'', ''monitor.verified'']) = Inr conn'"
    and pub: "published conn' = published sample_connection @
                map (\<lambda>k. (k, body)) [''monitor.info'', ''monitor.verified'']"
    and o: "body ''original_message_id'' = Some (JStr ''msg-1'')"
    and fr: "\<forall>k. k \<notin> {''event_type'', ''original_message_id'', ''message_id''}
                \<longrightarrow> body k = raw_payload (e_raw sample_exist) k"
    by auto
  from fr p have "body ''priority'' = Some (JStr ''INFO'')" by simp
  with s pub o show ?thesis by (simp add: sample_connection_def)
qed

text \<open>
  Claim C10, as stated: the created exchange's exclusive flag equals the caller's
  \<^verbatim>\<open>auto_delete\<close> argument. It fails: the argument is passed on as the keyword
  \<^verbatim>\<open>exclusive\<close>, which names no attribute of an exchange and is ignored, so the
  created exchange is the same whatever the argument is, and no flag of it can equal the
  argument.
\<close>

theorem create_exchange_exclusive_counterexample:
  "\<not> (\<exists>exclusive_flag :: Exchange \<Rightarrow> bool. \<forall>auto_delete.
         exclusive_flag (create_exchange ''stacktach'' ''topic'' False auto_delete True)
           = auto_delete)"
proof
  assume "\<exists>exclusive_flag :: Exchange \<Rightarrow> bool. \<forall>auto_delete.
         exclusive_flag (create_exchange ''stacktach'' ''topic'' False auto_delete True)
           = auto_delete"
  then obtain g :: "Exchange \<Rightarrow> bool" where
    g: "\<forall>a. g (create_exchange ''stacktach'' ''topic'' False a True) = a"
    by blast
  have "create_exchange ''stacktach'' ''topic'' False True True =
        create_exchange ''stacktach'' ''topic'' False False True"
    by (simp add: create_exchange_def kombu_Exchange_def)
  with g show False by metis
qed

text \<open>
  Claim C10, amended: for every call of the exchange constructor the created exchange's
  auto-delete flag equals the caller's \<^verbatim>\<open>exclusive\<close> argument, and the caller's
  \<^verbatim>\<open>auto_delete\<close> argument, passed on as the keyword \<^verbatim>\<open>exclusive\<close>, has no effect on
  the created exchange, because an exchange has no exclusive flag. \<^verbatim>\<open>Verifier.run\<close> and
  \<^verbatim>\<open>Verifier.run_once\<close> leave both arguments at their default \<^verbatim>\<open>False\<close>, so the
  exchanges they create have the auto-delete flag false, as they would without the swap.
\<close>

theorem create_exchange_swapped:
  "create_exchange name type exclusive auto_delete durable =
     \<lparr>ex_name = name, ex_type = type, ex_durable = durable, ex_auto_delete = exclusive\<rparr>
   \<and> run_exchange rabbit =
       \<lparr>ex_name = exchange_name rabbit, ex_type = ''topic'',
        ex_durable = durable_queue rabbit, ex_auto_delete = False\<rparr>
   \<and> run_once_exchange rabbit =
       \<lparr>ex_name = exchange_name rabbit, ex_type = ''topic'',
        ex_durable = durable_queue rabbit, ex_auto_delete = False\<rparr>"
  by (simp add: create_exchange_def kombu_Exchange_def run_exchange_def
      run_once_exchange_def)

end
